theory Spec2Isabelle
  imports Complex_Main
begin

section \<open>Highway Racer: a shallow embedding of the game core\<close>

text \<open>
  The JavaScript sources (\<^verbatim>\<open>utility.js\<close>, \<^verbatim>\<open>constants.js\<close>, \<^verbatim>\<open>game-objects.js\<close>,
  \<^verbatim>\<open>particles.js\<close>, \<^verbatim>\<open>game-engine.js\<close>) are translated function by function.
  JavaScript numbers are modelled as exact reals: no rounding, no \<^verbatim>\<open>NaN\<close>, no
  infinities. Quantities the code keeps integral (score, lives, point values) are
  \<^typ>\<open>int\<close>; array lengths and indices are \<^typ>\<open>nat\<close>.
\<close>

subsection \<open>Rectangles and collision (utility.js)\<close>

text \<open>Any object with \<^verbatim>\<open>x\<close>, \<^verbatim>\<open>y\<close>, \<^verbatim>\<open>width\<close>, \<^verbatim>\<open>height\<close>: game objects and hitboxes.\<close>

record rect =
  x :: real
  y :: real
  width :: real
  height :: real

definition checkCollision :: "'a rect_scheme \<Rightarrow> 'b rect_scheme \<Rightarrow> bool" where
  "checkCollision object1 object2 \<longleftrightarrow>
     x object1 < x object2 + width object2 \<and>
     x object1 + width object1 > x object2 \<and>
     y object1 < y object2 + height object2 \<and>
     y object1 + height object1 > y object2"

subsection \<open>Host environment\<close>

text \<open>
  \<^verbatim>\<open>Math.random()\<close> is modelled by a fixed stream of draws and a position in it that
  every call advances. The host returns values in \<open>[0, 1)\<close>; the stream may hold any
  reals and a draw is the fractional part, so every stream is a legal source of
  randomness and every legal sequence of draws is a stream. \<^verbatim>\<open>Date.now()\<close> and the
  \<^verbatim>\<open>requestAnimationFrame\<close> timestamp are arguments of the functions that read them.
\<close>

type_synonym rng = "nat \<Rightarrow> real"

definition Math_random :: "rng \<Rightarrow> nat \<Rightarrow> real" where
  "Math_random rnd k = frac (rnd k)"

text \<open>\<^verbatim>\<open>a || d\<close> on an optional number: \<^verbatim>\<open>undefined\<close> and \<^verbatim>\<open>0\<close> are both falsy.\<close>

definition or_num :: "real option \<Rightarrow> real \<Rightarrow> real" where
  "or_num a d = (case a of None \<Rightarrow> d | Some v \<Rightarrow> if v = 0 then d else v)"

text \<open>\<^verbatim>\<open>xs[i]\<close>: \<^verbatim>\<open>undefined\<close> out of range.\<close>

definition js_index :: "'a list \<Rightarrow> int \<Rightarrow> 'a option" where
  "js_index xs i = (if 0 \<le> i \<and> i < int (length xs) then Some (xs ! nat i) else None)"

text \<open>\<^verbatim>\<open>xs.splice(i, 1)\<close>\<close>

definition splice1 :: "nat \<Rightarrow> 'a list \<Rightarrow> 'a list" where
  "splice1 i xs = take i xs @ drop (Suc i) xs"

subsection \<open>Constants (constants.js)\<close>

text \<open>
  \<^verbatim>\<open>GAME_CONFIG\<close> is a mutable global: \<^verbatim>\<open>setDifficulty\<close> overwrites six of its fields.
  The current configuration is therefore a value that the functions reading it take as
  an argument; \<open>GAME_CONFIG\<close> below is its initial value.
\<close>

record config =
  LANE_COUNT :: nat
  FPS :: nat
  BASE_GAME_SPEED :: real
  MAX_GAME_SPEED :: real
  SPEED_INCREMENT :: real
  SPEED_INCREASE_INTERVAL :: real
  BASE_OBSTACLE_INTERVAL :: real
  MIN_OBSTACLE_INTERVAL :: real
  OBSTACLE_INTERVAL_DECREASE_RATE :: real
  POWER_UP_SPAWN_CHANCE :: real
  POWER_UP_DURATION :: real
  POWER_UP_MIN_SPAWN_INTERVAL :: real
  STARTING_LIVES :: int
  INVINCIBILITY_DURATION :: real
  PLAYER_WIDTH :: real
  PLAYER_HEIGHT :: real
  DIFFICULTY_INCREASE_RATE :: real
  SCORE_MULTIPLIER :: real
  BASE_SPEED_FACTOR :: real
  MAX_PARTICLES :: nat

definition GAME_CONFIG :: config where
  "GAME_CONFIG = \<lparr>
     LANE_COUNT = 3, FPS = 60,
     BASE_GAME_SPEED = 1, MAX_GAME_SPEED = 3.5, SPEED_INCREMENT = 0.1,
     SPEED_INCREASE_INTERVAL = 15000,
     BASE_OBSTACLE_INTERVAL = 2000, MIN_OBSTACLE_INTERVAL = 500,
     OBSTACLE_INTERVAL_DECREASE_RATE = 0.00001,
     POWER_UP_SPAWN_CHANCE = 0.35, POWER_UP_DURATION = 5000,
     POWER_UP_MIN_SPAWN_INTERVAL = 8000,
     STARTING_LIVES = 3, INVINCIBILITY_DURATION = 2000,
     PLAYER_WIDTH = 40, PLAYER_HEIGHT = 70,
     DIFFICULTY_INCREASE_RATE = 0.0001, SCORE_MULTIPLIER = 10,
     BASE_SPEED_FACTOR = 150,
     MAX_PARTICLES = 100 \<rparr>"

record preset =
  pr_BASE_GAME_SPEED :: real
  pr_MAX_GAME_SPEED :: real
  pr_SPEED_INCREASE_INTERVAL :: real
  pr_POWER_UP_SPAWN_CHANCE :: real
  pr_STARTING_LIVES :: int
  pr_OBSTACLE_INTERVAL_DECREASE_RATE :: real

definition DIFFICULTY_PRESETS :: "(string \<times> preset) list" where
  "DIFFICULTY_PRESETS = [
     (''EASY'', \<lparr> pr_BASE_GAME_SPEED = 0.8, pr_MAX_GAME_SPEED = 2.0,
        pr_SPEED_INCREASE_INTERVAL = 25000, pr_POWER_UP_SPAWN_CHANCE = 0.3,
        pr_STARTING_LIVES = 5, pr_OBSTACLE_INTERVAL_DECREASE_RATE = 0.000005 \<rparr>),
     (''MEDIUM'', \<lparr> pr_BASE_GAME_SPEED = 1.0, pr_MAX_GAME_SPEED = 3.0,
        pr_SPEED_INCREASE_INTERVAL = 15000, pr_POWER_UP_SPAWN_CHANCE = 0.25,
        pr_STARTING_LIVES = 3, pr_OBSTACLE_INTERVAL_DECREASE_RATE = 0.00001 \<rparr>),
     (''HARD'', \<lparr> pr_BASE_GAME_SPEED = 1.2, pr_MAX_GAME_SPEED = 3.5,
        pr_SPEED_INCREASE_INTERVAL = 10000, pr_POWER_UP_SPAWN_CHANCE = 0.2,
        pr_STARTING_LIVES = 3, pr_OBSTACLE_INTERVAL_DECREASE_RATE = 0.00002 \<rparr>),
     (''EXTREME'', \<lparr> pr_BASE_GAME_SPEED = 1.5, pr_MAX_GAME_SPEED = 4.0,
        pr_SPEED_INCREASE_INTERVAL = 8000, pr_POWER_UP_SPAWN_CHANCE = 0.15,
        pr_STARTING_LIVES = 2, pr_OBSTACLE_INTERVAL_DECREASE_RATE = 0.00003 \<rparr>)]"

text \<open>The hitbox adjustment of an obstacle type: offsets and size deltas.\<close>

record obstacleType =
  ot_type :: string
  ot_color :: string
  ot_width :: real
  ot_height :: real
  ot_points :: int
  ot_sprite :: string
  hitboxAdjustment :: "rect option"

definition OBSTACLE_TYPES :: "obstacleType list" where
  "OBSTACLE_TYPES = [
     \<lparr> ot_type = ''car'', ot_color = ''#ff0000'', ot_width = 50, ot_height = 80,
       ot_points = 10, ot_sprite = ''enemy_car.png'',
       hitboxAdjustment = Some \<lparr> x = 0, y = 0, width = -5, height = -5 \<rparr> \<rparr>,
     \<lparr> ot_type = ''truck'', ot_color = ''#ff9900'', ot_width = 70, ot_height = 120,
       ot_points = 20, ot_sprite = ''enemy_truck.png'',
       hitboxAdjustment = Some \<lparr> x = 0, y = 0, width = -5, height = -5 \<rparr> \<rparr>,
     \<lparr> ot_type = ''debris'', ot_color = ''#0000ff'', ot_width = 30, ot_height = 30,
       ot_points = 5, ot_sprite = ''debris.png'',
       hitboxAdjustment = Some \<lparr> x = 0, y = 0, width = -2, height = -2 \<rparr> \<rparr>]"

datatype power_up_type = Shield | SlowTime | ExtraLife | ScoreBoost

datatype effect = Invincibility | SlowMotion | AddLife | DoubleScore

record powerUpType =
  put_type :: power_up_type
  put_color :: string
  put_duration :: "real option"
  put_width :: real
  put_height :: real
  put_sprite :: string
  put_effect :: effect

definition POWER_UP_TYPES :: "powerUpType list" where
  "POWER_UP_TYPES = [
     \<lparr> put_type = Shield, put_color = ''#4ade80'', put_duration = Some 5000,
       put_width = 30, put_height = 30, put_sprite = ''shield.png'',
       put_effect = Invincibility \<rparr>,
     \<lparr> put_type = SlowTime, put_color = ''#2563eb'', put_duration = Some 5000,
       put_width = 30, put_height = 30, put_sprite = ''clock.png'',
       put_effect = SlowMotion \<rparr>,
     \<lparr> put_type = ExtraLife, put_color = ''#ec4899'', put_duration = None,
       put_width = 30, put_height = 30, put_sprite = ''heart.png'',
       put_effect = AddLife \<rparr>,
     \<lparr> put_type = ScoreBoost, put_color = ''#f59e0b'', put_duration = Some 5000,
       put_width = 30, put_height = 30, put_sprite = ''coin.png'',
       put_effect = DoubleScore \<rparr>]"

datatype game_state = MENU | PLAYING | PAUSED | GAME_OVER

subsection \<open>Game objects (game-objects.js)\<close>

text \<open>
  The class hierarchy is kept: \<open>gameObject\<close> extends \<open>rect\<close>, and \<open>player\<close>,
  \<open>obstacle\<close> and \<open>powerUp\<close> extend \<open>gameObject\<close>. Fields that two classes share by
  name carry a prefix in all but one of them, and a field whose name is a HOL constant
  carries a suffix. The drawing methods and the state they alone read (the pulse, spin
  and glow animation of a power-up) are left out.
\<close>

record gameObject = rect +
  color :: string
  markedForDeletion :: bool

definition isCollidingWith :: "'a gameObject_scheme \<Rightarrow> 'b rect_scheme \<Rightarrow> bool" where
  "isCollidingWith this other = checkCollision this other"

record player = gameObject +
  laneWidth :: real
  gameHeight :: real
  lane :: nat
  targetLane :: nat
  laneChangeSpeed :: real
  baseX :: real
  speed :: real
  isAccelerating :: bool
  lives :: int
  invincible :: bool
  invincibleTime :: real
  hasShield :: bool
  power_p :: "effect option"
  powerUpTime :: real
  blinkInterval :: real
  lastBlinkTime :: real
  visible :: bool

definition Player_new :: "config \<Rightarrow> real \<Rightarrow> real \<Rightarrow> player" where
  "Player_new cfg laneWidth0 gameHeight0 =
     (let width0 = PLAYER_WIDTH cfg;
          height0 = PLAYER_HEIGHT cfg;
          x0 = laneWidth0 + (laneWidth0 - width0) / 2;
          y0 = gameHeight0 - height0 - 20
      in \<lparr> x = x0, y = y0, width = width0, height = height0,
           color = ''#00ff00'', markedForDeletion = False,
           laneWidth = laneWidth0, gameHeight = gameHeight0,
           lane = 1, targetLane = 1, laneChangeSpeed = 10, baseX = x0,
           speed = BASE_GAME_SPEED cfg, isAccelerating = False,
           lives = STARTING_LIVES cfg,
           invincible = False, invincibleTime = 0, hasShield = False,
           power_p = None, powerUpTime = 0,
           blinkInterval = 200, lastBlinkTime = 0, visible = True \<rparr>)"

definition moveLeft :: "player \<Rightarrow> player" where
  "moveLeft p = (if targetLane p > 0 then p\<lparr>targetLane := targetLane p - 1\<rparr> else p)"

definition moveRight :: "config \<Rightarrow> player \<Rightarrow> player" where
  "moveRight cfg p =
     (if int (targetLane p) < int (LANE_COUNT cfg) - 1
      then p\<lparr>targetLane := targetLane p + 1\<rparr> else p)"

definition setSpeed :: "real \<Rightarrow> player \<Rightarrow> player" where
  "setSpeed newSpeed p = p\<lparr>speed := newSpeed\<rparr>"

definition accelerate :: "config \<Rightarrow> player \<Rightarrow> player" where
  "accelerate cfg p =
     p\<lparr>isAccelerating := True, speed := min (speed p * 1.5) (MAX_GAME_SPEED cfg)\<rparr>"

definition decelerate :: "config \<Rightarrow> player \<Rightarrow> player" where
  "decelerate cfg p = p\<lparr>isAccelerating := False, speed := BASE_GAME_SPEED cfg\<rparr>"

text \<open>\<^verbatim>\<open>applyPowerUp(powerType, duration = 5000)\<close>: \<open>None\<close> is the omitted argument.\<close>

definition Player_applyPowerUp :: "effect \<Rightarrow> real option \<Rightarrow> player \<Rightarrow> player" where
  "Player_applyPowerUp powerType duration0 p =
     (let p1 = p\<lparr>power_p := Some powerType,
                 powerUpTime := (case duration0 of None \<Rightarrow> 5000 | Some d \<Rightarrow> d)\<rparr>
      in case powerType of
           Invincibility \<Rightarrow> p1\<lparr>invincible := True, hasShield := True\<rparr>
         | SlowMotion \<Rightarrow> p1
         | AddLife \<Rightarrow> p1\<lparr>lives := min (lives p1 + 1) 5\<rparr>
         | DoubleScore \<Rightarrow> p1)"

text \<open>\<^verbatim>\<open>takeDamage()\<close> returns whether the player died, with the updated player.\<close>

definition takeDamage :: "config \<Rightarrow> player \<Rightarrow> bool \<times> player" where
  "takeDamage cfg p =
     (if invincible p then (False, p)
      else let p1 = p\<lparr>lives := lives p - 1\<rparr>
           in if lives p1 \<le> 0 then (True, p1)
              else (False, p1\<lparr>invincible := True,
                              invincibleTime := INVINCIBILITY_DURATION cfg\<rparr>))"

definition Player_update :: "real \<Rightarrow> player \<Rightarrow> player" where
  "Player_update deltaTime p =
     (let targetX = laneWidth p * real (targetLane p) + (laneWidth p - width p) / 2;
          dx = targetX - x p;
          p1 = (if \<bar>dx\<bar> > 0.1
                then p\<lparr>x := x p + dx * laneChangeSpeed p * deltaTime\<rparr>
                else p\<lparr>x := targetX, lane := targetLane p\<rparr>);
          p2 = (if invincible p1 \<and> power_p p1 \<noteq> Some Invincibility
                then let p1a = p1\<lparr>invincibleTime := invincibleTime p1 - deltaTime * 1000\<rparr>
                     in if invincibleTime p1a \<le> 0
                        then p1a\<lparr>invincible := False, visible := True\<rparr>
                        else let p1b = p1a\<lparr>lastBlinkTime := lastBlinkTime p1a + deltaTime * 1000\<rparr>
                             in if lastBlinkTime p1b \<ge> blinkInterval p1b
                                then p1b\<lparr>visible := \<not> visible p1b, lastBlinkTime := 0\<rparr>
                                else p1b
                else p1)
      in case power_p p2 of
           None \<Rightarrow> p2
         | Some pw \<Rightarrow>
             let p3 = p2\<lparr>powerUpTime := powerUpTime p2 - deltaTime * 1000\<rparr>
             in if powerUpTime p3 \<le> 0
                then (case pw of
                        Invincibility \<Rightarrow> p3\<lparr>invincible := False, hasShield := False\<rparr>
                      | SlowMotion \<Rightarrow> p3
                      | AddLife \<Rightarrow> p3
                      | DoubleScore \<Rightarrow> p3)\<lparr>power_p := None, visible := True\<rparr>
                else p3)"

text \<open>
  An obstacle's \<open>hitbox\<close> is either a rectangle of its own or the obstacle itself
  (\<^verbatim>\<open>this.hitbox = this\<close>), which is \<open>None\<close> here.
\<close>

record obstacle = gameObject +
  o_lane :: nat
  o_type :: string
  o_speed :: real
  points :: int
  sprite :: string
  hitbox :: "rect option"

text \<open>
  \<^verbatim>\<open>new Obstacle(lane, laneWidth, type)\<close>. The random type is drawn only when no type is
  given; the speed draw follows. Returns the obstacle and the next position of the
  random stream.
\<close>

definition Obstacle_new ::
  "rng \<Rightarrow> nat \<Rightarrow> nat \<Rightarrow> real \<Rightarrow> obstacleType option \<Rightarrow> obstacle \<times> nat" where
  "Obstacle_new rnd k lane0 laneWidth0 type0 =
     (let (obstacleType, k1) =
            (case type0 of
               Some t \<Rightarrow> (t, k)
             | None \<Rightarrow> (OBSTACLE_TYPES !
                          nat \<lfloor>Math_random rnd k * real (length OBSTACLE_TYPES)\<rfloor>, Suc k));
          x0 = real lane0 * laneWidth0 + (laneWidth0 - ot_width obstacleType) / 2;
          y0 = - ot_height obstacleType
      in (\<lparr> x = x0, y = y0, width = ot_width obstacleType, height = ot_height obstacleType,
            color = ot_color obstacleType, markedForDeletion = False,
            o_lane = lane0, o_type = ot_type obstacleType,
            o_speed = 1 + Math_random rnd k1 * 0.5,
            points = ot_points obstacleType, sprite = ot_sprite obstacleType,
            hitbox = (case hitboxAdjustment obstacleType of
                        Some adj \<Rightarrow> Some \<lparr> x = x0 + x adj, y = y0 + y adj,
                                           width = ot_width obstacleType + width adj,
                                           height = ot_height obstacleType + height adj \<rparr>
                      | None \<Rightarrow> None) \<rparr>,
          Suc k1))"

definition Obstacle_update :: "config \<Rightarrow> real \<Rightarrow> real \<Rightarrow> real \<Rightarrow> real \<Rightarrow> obstacle \<Rightarrow> obstacle" where
  "Obstacle_update cfg deltaTime playerSpeed gameHeight0 timeScale0 ob =
     (let o1 = ob\<lparr>y := y ob + o_speed ob * playerSpeed * BASE_SPEED_FACTOR cfg * deltaTime * timeScale0\<rparr>;
          o2 = (case hitbox o1 of
                  Some hb \<Rightarrow> o1\<lparr>hitbox := Some (hb\<lparr>x := x o1, y := y o1\<rparr>)\<rparr>
                | None \<Rightarrow> o1)
      in if y o2 > gameHeight0 then o2\<lparr>markedForDeletion := True\<rparr> else o2)"

text \<open>The rectangle collisions are tested against: \<^verbatim>\<open>obstacle.hitbox || obstacle\<close>.\<close>

definition hitbox_rect :: "obstacle \<Rightarrow> rect" where
  "hitbox_rect ob = (case hitbox ob of Some hb \<Rightarrow> hb | None \<Rightarrow> rect.truncate ob)"

record powerUp = gameObject +
  pu_lane :: nat
  pu_type :: power_up_type
  effect_of :: effect
  duration :: real
  pu_sprite :: string
  lastTrailTime :: real
  trailInterval :: real
  trailColor :: "string option"
  shouldCreateTrail :: bool

text \<open>
  \<^verbatim>\<open>new PowerUp(lane, laneWidth, typeOverride)\<close>: a type that is given is looked up in
  the catalog; without one (\<^verbatim>\<open>null\<close>) the type is drawn uniformly from the whole
  catalog. \<open>find\<close> returns the first entry of the given type.
\<close>

definition PowerUp_new ::
  "rng \<Rightarrow> nat \<Rightarrow> nat \<Rightarrow> real \<Rightarrow> power_up_type option \<Rightarrow> powerUp \<times> nat" where
  "PowerUp_new rnd k lane0 laneWidth0 typeOverride =
     (let (powerUpType, k1) =
            (case typeOverride of
               Some t \<Rightarrow>
                 (case List.find (\<lambda>p. put_type p = t) POWER_UP_TYPES of
                    Some p \<Rightarrow> (p, k)
                  | None \<Rightarrow> (POWER_UP_TYPES !
                               nat \<lfloor>Math_random rnd k * real (length POWER_UP_TYPES)\<rfloor>, Suc k))
             | None \<Rightarrow> (POWER_UP_TYPES !
                          nat \<lfloor>Math_random rnd k * real (length POWER_UP_TYPES)\<rfloor>, Suc k));
          width0 = put_width powerUpType;
          height0 = put_height powerUpType;
          x0 = real lane0 * laneWidth0 + (laneWidth0 - width0) / 2;
          y0 = - height0;
          important = (put_type powerUpType = Shield \<or> put_type powerUpType = ExtraLife)
      in (\<lparr> x = x0, y = y0,
            width = (if important then width0 + 5 else width0),
            height = (if important then height0 + 5 else height0),
            color = put_color powerUpType, markedForDeletion = False,
            pu_lane = lane0, pu_type = put_type powerUpType,
            effect_of = put_effect powerUpType,
            duration = or_num (put_duration powerUpType) 0,
            pu_sprite = put_sprite powerUpType,
            lastTrailTime = 0, trailInterval = 100,
            trailColor = (if put_type powerUpType = Shield then Some ''#4ade80''
                          else if put_type powerUpType = ExtraLife then Some ''#ec4899''
                          else None),
            shouldCreateTrail = False \<rparr>,
          k1))"

text \<open>\<^verbatim>\<open>PowerUp.update\<close>; \<open>now\<close> is \<^verbatim>\<open>Date.now()\<close>.\<close>

definition PowerUp_update :: "config \<Rightarrow> real \<Rightarrow> real \<Rightarrow> real \<Rightarrow> real \<Rightarrow> real \<Rightarrow> powerUp \<Rightarrow> powerUp" where
  "PowerUp_update cfg now deltaTime playerSpeed gameHeight0 timeScale0 pu =
     (let scaledDelta = deltaTime * timeScale0;
          u1 = pu\<lparr>y := y pu + playerSpeed * BASE_SPEED_FACTOR cfg * scaledDelta\<rparr>;
          u2 = (if (pu_type u1 = Shield \<or> pu_type u1 = ExtraLife)
                   \<and> now - lastTrailTime u1 > trailInterval u1
                then u1\<lparr>shouldCreateTrail := True, lastTrailTime := now\<rparr>
                else u1)
      in if y u2 > gameHeight0 then u2\<lparr>markedForDeletion := True\<rparr> else u2)"

subsection \<open>Particle system (particles.js)\<close>

text \<open>A \<^verbatim>\<open>{min, max}\<close> range.\<close>

record range =
  min_r :: real
  max_r :: real

text \<open>The argument of \<^verbatim>\<open>createEmitter\<close>: every property may be absent.\<close>

record emitterConfig =
  cf_x :: "real option"
  cf_y :: "real option"
  cf_count :: "nat option"
  cf_speed :: "range option"
  cf_size :: "range option"
  cf_lifetime :: "range option"
  cf_colors :: "string list option"
  cf_gravity :: "real option"
  cf_oneShot :: "bool option"
  cf_emitInterval :: "real option"

definition PARTICLE_CONFIG_crash :: emitterConfig where
  "PARTICLE_CONFIG_crash = \<lparr>
     cf_x = None, cf_y = None, cf_count = Some 30,
     cf_speed = Some \<lparr> min_r = 50, max_r = 150 \<rparr>,
     cf_size = Some \<lparr> min_r = 2, max_r = 6 \<rparr>,
     cf_lifetime = Some \<lparr> min_r = 500, max_r = 1000 \<rparr>,
     cf_colors = Some [''#ff0000'', ''#ff5500'', ''#ffaa00'', ''#ffff00''],
     cf_gravity = Some 200, cf_oneShot = None, cf_emitInterval = None \<rparr>"

definition PARTICLE_CONFIG_sparkle :: emitterConfig where
  "PARTICLE_CONFIG_sparkle = \<lparr>
     cf_x = None, cf_y = None, cf_count = Some 10,
     cf_speed = Some \<lparr> min_r = 20, max_r = 50 \<rparr>,
     cf_size = Some \<lparr> min_r = 1, max_r = 3 \<rparr>,
     cf_lifetime = Some \<lparr> min_r = 300, max_r = 600 \<rparr>,
     cf_colors = Some [''#ffff00'', ''#ffffff'', ''#88ff88''],
     cf_gravity = Some 0, cf_oneShot = None, cf_emitInterval = None \<rparr>"

record emitter =
  em_x :: real
  em_y :: real
  em_count :: nat
  em_speed :: range
  em_size :: range
  em_lifetime :: range
  em_colors :: "string list"
  em_gravity :: real
  oneShot :: bool
  active :: bool
  lastEmitTime :: real
  emitInterval :: real

record particle =
  pt_x :: real
  pt_y :: real
  vx :: real
  vy :: real
  pt_size :: real
  pt_color :: "string option"
  lifetime :: real
  age :: real
  pt_gravity :: real

text \<open>No particle is ever given an \<^verbatim>\<open>emitterIndex\<close> property: reading it is \<^verbatim>\<open>undefined\<close>.\<close>

definition emitterIndex :: "particle \<Rightarrow> nat option" where
  "emitterIndex p = None"

record particleSystem =
  particles :: "particle list"
  emitters :: "emitter list"

definition ParticleSystem_new :: particleSystem where
  "ParticleSystem_new = \<lparr> particles = [], emitters = [] \<rparr>"

definition randomNumber :: "rng \<Rightarrow> nat \<Rightarrow> real \<Rightarrow> real \<Rightarrow> real" where
  "randomNumber rnd k min0 max0 = of_int \<lfloor>Math_random rnd k * (max0 - min0 + 1)\<rfloor> + min0"

text \<open>
  The particle that one iteration of the loop of \<^verbatim>\<open>emit\<close> creates, from five draws
  starting at position \<open>k\<close>: angle, speed, size, lifetime, colour.
\<close>

definition new_particle :: "rng \<Rightarrow> emitter \<Rightarrow> nat \<Rightarrow> particle" where
  "new_particle rnd em k =
     (let angle = Math_random rnd k * pi * 2;
          speed0 = randomNumber rnd (k + 1) (min_r (em_speed em)) (max_r (em_speed em));
          size0 = randomNumber rnd (k + 2) (min_r (em_size em)) (max_r (em_size em));
          lifetime0 = randomNumber rnd (k + 3) (min_r (em_lifetime em)) (max_r (em_lifetime em));
          color0 = js_index (em_colors em)
                     \<lfloor>Math_random rnd (k + 4) * real (length (em_colors em))\<rfloor>
      in \<lparr> pt_x = em_x em, pt_y = em_y em,
           vx = cos angle * speed0, vy = sin angle * speed0,
           pt_size = size0, pt_color = color0, lifetime = lifetime0,
           age = 0, pt_gravity = em_gravity em \<rparr>)"

text \<open>
  The body of the loop of \<^verbatim>\<open>emit\<close>: at the cap the oldest particle is shifted out
  (\<^verbatim>\<open>shift\<close> on an empty array does nothing), then the new particle is pushed.
\<close>

definition emit_particle ::
  "config \<Rightarrow> rng \<Rightarrow> emitter \<Rightarrow> particle list \<times> nat \<Rightarrow> particle list \<times> nat" where
  "emit_particle cfg rnd em st =
     (let (ps, k) = st;
          ps1 = (if length ps \<ge> MAX_PARTICLES cfg then tl ps else ps)
      in (ps1 @ [new_particle rnd em k], k + 5))"

fun emit_loop ::
  "config \<Rightarrow> rng \<Rightarrow> emitter \<Rightarrow> nat \<Rightarrow> particle list \<times> nat \<Rightarrow> particle list \<times> nat" where
  "emit_loop cfg rnd em 0 st = st"
| "emit_loop cfg rnd em (Suc n) st = emit_loop cfg rnd em n (emit_particle cfg rnd em st)"

definition emit ::
  "config \<Rightarrow> rng \<Rightarrow> emitter \<Rightarrow> particleSystem \<times> nat \<Rightarrow> particleSystem \<times> nat" where
  "emit cfg rnd em st =
     (let (ps, k) = st
      in if \<not> active em then (ps, k)
         else let (parts, k1) = emit_loop cfg rnd em (em_count em) (particles ps, k)
              in (ps\<lparr>particles := parts\<rparr>, k1))"

definition createEmitter ::
  "config \<Rightarrow> rng \<Rightarrow> emitterConfig \<Rightarrow> particleSystem \<times> nat \<Rightarrow> particleSystem \<times> nat" where
  "createEmitter cfg rnd c st =
     (let (ps, k) = st;
          em = \<lparr> em_x = or_num (cf_x c) 0,
                 em_y = or_num (cf_y c) 0,
                 em_count = (case cf_count c of None \<Rightarrow> 10 | Some n \<Rightarrow> if n = 0 then 10 else n),
                 em_speed = (case cf_speed c of None \<Rightarrow> \<lparr> min_r = 20, max_r = 50 \<rparr> | Some r \<Rightarrow> r),
                 em_size = (case cf_size c of None \<Rightarrow> \<lparr> min_r = 2, max_r = 5 \<rparr> | Some r \<Rightarrow> r),
                 em_lifetime = (case cf_lifetime c of None \<Rightarrow> \<lparr> min_r = 500, max_r = 1000 \<rparr> | Some r \<Rightarrow> r),
                 em_colors = (case cf_colors c of None \<Rightarrow> [''#ffffff''] | Some cs \<Rightarrow> cs),
                 em_gravity = or_num (cf_gravity c) 0,
                 oneShot = (case cf_oneShot c of None \<Rightarrow> True | Some b \<Rightarrow> b),
                 active = True,
                 lastEmitTime = 0,
                 emitInterval = or_num (cf_emitInterval c) 200 \<rparr>;
          ps1 = ps\<lparr>emitters := emitters ps @ [em]\<rparr>
      in if oneShot em then emit cfg rnd em (ps1, k) else (ps1, k))"

text \<open>
  \<^verbatim>\<open>explosion(x, y, config)\<close> builds \<^verbatim>\<open>{x, y, ...config, oneShot: true}\<close>: a position in
  \<open>config\<close> overrides the arguments.
\<close>

definition explosion ::
  "config \<Rightarrow> rng \<Rightarrow> real \<Rightarrow> real \<Rightarrow> emitterConfig \<Rightarrow> particleSystem \<times> nat \<Rightarrow> particleSystem \<times> nat" where
  "explosion cfg rnd x0 y0 c st =
     createEmitter cfg rnd
       (c\<lparr>cf_x := (case cf_x c of None \<Rightarrow> Some x0 | Some v \<Rightarrow> Some v),
          cf_y := (case cf_y c of None \<Rightarrow> Some y0 | Some v \<Rightarrow> Some v),
          cf_oneShot := Some True\<rparr>) st"

text \<open>
  The body of the emitter loop of \<^verbatim>\<open>update\<close> at index \<open>i\<close>: a continuous, active
  emitter accumulates time and re-fires at its interval; a one-shot emitter none of whose
  particles refers to it is removed.
\<close>

definition emitter_step ::
  "config \<Rightarrow> rng \<Rightarrow> real \<Rightarrow> nat \<Rightarrow> particleSystem \<times> nat \<Rightarrow> particleSystem \<times> nat" where
  "emitter_step cfg rnd delta i st =
     (let (ps, k) = st;
          em = emitters ps ! i;
          (ps1, k1) =
            (if \<not> oneShot em \<and> active em
             then let em1 = em\<lparr>lastEmitTime := lastEmitTime em + delta * 1000\<rparr>;
                      ps0 = ps\<lparr>emitters := (emitters ps)[i := em1]\<rparr>
                  in if lastEmitTime em1 \<ge> emitInterval em1
                     then let (ps', k') = emit cfg rnd em1 (ps0, k)
                          in (ps'\<lparr>emitters := (emitters ps')[i := em1\<lparr>lastEmitTime := 0\<rparr>]\<rparr>, k')
                     else (ps0, k)
             else (ps, k))
      in (if oneShot (emitters ps1 ! i)
             \<and> \<not> list_ex (\<lambda>p. emitterIndex p = Some i) (particles ps1)
          then ps1\<lparr>emitters := splice1 i (emitters ps1)\<rparr> else ps1,
          k1))"

text \<open>
  The emitter loop, from the last index down; the first argument of the loop function
  is the number of indices still to visit.
\<close>

fun update_emitters ::
  "config \<Rightarrow> rng \<Rightarrow> real \<Rightarrow> nat \<Rightarrow> particleSystem \<times> nat \<Rightarrow> particleSystem \<times> nat" where
  "update_emitters cfg rnd delta 0 st = st"
| "update_emitters cfg rnd delta (Suc i) st =
     update_emitters cfg rnd delta i (emitter_step cfg rnd delta i st)"

definition particle_step :: "real \<Rightarrow> particle \<Rightarrow> particle" where
  "particle_step delta p =
     (let p1 = p\<lparr>vy := vy p + pt_gravity p * delta\<rparr>;
          p2 = p1\<lparr>pt_x := pt_x p1 + vx p1 * delta\<rparr>;
          p3 = p2\<lparr>pt_y := pt_y p2 + vy p2 * delta\<rparr>
      in p3\<lparr>age := age p3 + delta * 1000\<rparr>)"

text \<open>The particle loop of \<^verbatim>\<open>update\<close>, from the last index down.\<close>

fun update_particles :: "real \<Rightarrow> nat \<Rightarrow> particle list \<Rightarrow> particle list" where
  "update_particles delta 0 ps = ps"
| "update_particles delta (Suc i) ps =
     (let p = particle_step delta (ps ! i);
          ps1 = ps[i := p]
      in update_particles delta i (if age p \<ge> lifetime p then splice1 i ps1 else ps1))"

definition ParticleSystem_update ::
  "config \<Rightarrow> rng \<Rightarrow> real \<Rightarrow> particleSystem \<times> nat \<Rightarrow> particleSystem \<times> nat" where
  "ParticleSystem_update cfg rnd delta st =
     (let (ps, k) = st;
          (ps1, k1) = update_emitters cfg rnd delta (length (emitters ps)) (ps, k)
      in (ps1\<lparr>particles := update_particles delta (length (particles ps1)) (particles ps1)\<rparr>, k1))"

definition clear :: "particleSystem \<Rightarrow> particleSystem" where
  "clear ps = ps\<lparr>particles := [], emitters := []\<rparr>"





subsection \<open>Game engine (game-engine.js)\<close>

text \<open>
  The engine state holds the fields of \<^verbatim>\<open>GameEngine\<close> that the game logic reads or
  writes, and with them the parts of the host that the engine mutates: the canvas size,
  the global \<^verbatim>\<open>GAME_CONFIG\<close>, the position in the random stream, the callbacks
  registered with \<^verbatim>\<open>setTimeout\<close> and not yet run, and the \<^verbatim>\<open>stateChange\<close> events that
  the wrapper of \<^verbatim>\<open>setState\<close> in \<^verbatim>\<open>app.js\<close> emits. Drawing, DOM updates, audio and
  notifications write none of these fields and are left out. The names
  \<^verbatim>\<open>POWER_UP_TYPES\<close> and \<^verbatim>\<open>DIFFICULTY_PRESETS\<close> in the engine are read as the
  exports of \<^verbatim>\<open>constants.js\<close>.

  \<open>timeSinceLastPowerUp\<close> is a property that \<^verbatim>\<open>spawnPowerUp\<close> reads and that no
  statement of the program assigns; it is \<open>None\<close> (\<^verbatim>\<open>undefined\<close>) in every state the
  constructor produces, and no function below changes it.
\<close>

datatype timeout_callback = ResetTimeScale | ResetScoreMultiplier

record engine =
  canvas_width :: real
  canvas_height :: real
  game_config :: config
  rnd_pos :: nat
  timeouts :: "(real \<times> timeout_callback) list"
  stateChanges :: "(game_state \<times> game_state) list"
  state :: game_state
  score :: int
  highScore :: int
  gameTime :: real
  lastObstacleTime :: real
  lastSpeedIncreaseTime :: real
  lastPowerUpTime :: real
  timeScale :: real
  scoreMultiplier :: real
  distance :: real
  gameSpeed :: real
  roadOffset :: real
  difficulty :: real
  player :: "player option"
  obstacles :: "obstacle list"
  powerUps :: "powerUp list"
  particleSystem :: particleSystem
  previousScore :: int
  timeSinceLastPowerUp :: "real option"
  timeSinceLastPowerUpType :: "(power_up_type \<rightharpoonup> real) option"
  lastPowerUpTypeTime :: "real option"

text \<open>
  \<^verbatim>\<open>new GameEngine(canvas, uiElements)\<close> followed by the \<^verbatim>\<open>resizeCanvas\<close> of \<^verbatim>\<open>init\<close>;
  the arguments are the size of the canvas container and the stored high score.
\<close>

definition GameEngine_new :: "real \<Rightarrow> real \<Rightarrow> int \<Rightarrow> engine" where
  "GameEngine_new w h stored =
     \<lparr> canvas_width = w, canvas_height = h, game_config = GAME_CONFIG, rnd_pos = 0,
       timeouts = [], stateChanges = [],
       state = MENU, score = 0, highScore = stored, gameTime = 0,
       lastObstacleTime = 0, lastSpeedIncreaseTime = 0, lastPowerUpTime = 0,
       timeScale = 1, scoreMultiplier = 1, distance = 0, gameSpeed = 1,
       roadOffset = 0, difficulty = 1,
       player = None, obstacles = [], powerUps = [],
       particleSystem = ParticleSystem_new, previousScore = 0,
       timeSinceLastPowerUp = None, timeSinceLastPowerUpType = None,
       lastPowerUpTypeTime = None \<rparr>"

text \<open>A method call on \<^verbatim>\<open>this.player\<close>.\<close>

definition with_player :: "(player \<Rightarrow> player) \<Rightarrow> engine \<Rightarrow> engine" where
  "with_player f e = e\<lparr>player := map_option f (player e)\<rparr>"

text \<open>\<^verbatim>\<open>this.particleSystem.explosion(...)\<close> at the centre of the player.\<close>

definition explodeAtPlayer :: "rng \<Rightarrow> emitterConfig \<Rightarrow> engine \<Rightarrow> engine" where
  "explodeAtPlayer rnd c e =
     (case player e of
        None \<Rightarrow> e
      | Some p \<Rightarrow>
          let (psys, k) = explosion (game_config e) rnd (x p + width p / 2) (y p + height p / 2) c
                            (particleSystem e, rnd_pos e)
          in e\<lparr>particleSystem := psys, rnd_pos := k\<rparr>)"

definition endGame :: "engine \<Rightarrow> engine" where
  "endGame e = (if score e > highScore e then e\<lparr>highScore := score e\<rparr> else e)"

definition emitStateChange :: "game_state \<Rightarrow> game_state \<Rightarrow> engine \<Rightarrow> engine" where
  "emitStateChange newState oldState e =
     e\<lparr>stateChanges := stateChanges e @ [(newState, oldState)]\<rparr>"

text \<open>
  \<^verbatim>\<open>this.setState(GAME_STATES.GAME_OVER)\<close>, the call that \<^verbatim>\<open>checkCollisions\<close> makes:
  the wrapper of \<^verbatim>\<open>app.js\<close> around the \<^verbatim>\<open>GAME_OVER\<close> case of \<^verbatim>\<open>setState\<close>.
\<close>

definition setState_GAME_OVER :: "engine \<Rightarrow> engine" where
  "setState_GAME_OVER e =
     emitStateChange GAME_OVER (state e) (endGame (e\<lparr>state := GAME_OVER\<rparr>))"

definition getObstacleSpawnInterval :: "engine \<Rightarrow> real" where
  "getObstacleSpawnInterval e =
     max (MIN_OBSTACLE_INTERVAL (game_config e))
         (BASE_OBSTACLE_INTERVAL (game_config e)
            - real_of_int (score e) * OBSTACLE_INTERVAL_DECREASE_RATE (game_config e))"

definition getPowerUpSpawnInterval :: "engine \<Rightarrow> real" where
  "getPowerUpSpawnInterval e =
     max (POWER_UP_MIN_SPAWN_INTERVAL (game_config e)) (getObstacleSpawnInterval e * 3)"

definition increaseDifficulty :: "engine \<Rightarrow> engine" where
  "increaseDifficulty e =
     (let e1 = e\<lparr>difficulty := difficulty e + DIFFICULTY_INCREASE_RATE (game_config e)\<rparr>
      in case player e1 of
           None \<Rightarrow> e1
         | Some p \<Rightarrow>
             if speed p < MAX_GAME_SPEED (game_config e1)
             then let newSpeed = min (speed p + SPEED_INCREMENT (game_config e1))
                                     (MAX_GAME_SPEED (game_config e1))
                  in e1\<lparr>player := Some (setSpeed newSpeed p)\<rparr>
             else e1)"

text \<open>\<^verbatim>\<open>String.prototype.toUpperCase\<close> on ASCII letters.\<close>

definition toUpperCase :: "string \<Rightarrow> string" where
  "toUpperCase s =
     map (\<lambda>c. let n = (of_char c :: nat) in if 97 \<le> n \<and> n \<le> 122 then char_of (n - 32) else c) s"

definition setDifficulty :: "string \<Rightarrow> engine \<Rightarrow> engine" where
  "setDifficulty difficulty0 e =
     (case map_of DIFFICULTY_PRESETS (toUpperCase difficulty0) of
        None \<Rightarrow> e
      | Some pr \<Rightarrow>
          let cfg = (game_config e)\<lparr>
                      BASE_GAME_SPEED := pr_BASE_GAME_SPEED pr,
                      MAX_GAME_SPEED := pr_MAX_GAME_SPEED pr,
                      SPEED_INCREASE_INTERVAL := pr_SPEED_INCREASE_INTERVAL pr,
                      POWER_UP_SPAWN_CHANCE := pr_POWER_UP_SPAWN_CHANCE pr,
                      STARTING_LIVES := pr_STARTING_LIVES pr,
                      OBSTACLE_INTERVAL_DECREASE_RATE := pr_OBSTACLE_INTERVAL_DECREASE_RATE pr\<rparr>;
              e1 = e\<lparr>game_config := cfg\<rparr>
          in with_player (\<lambda>p. setSpeed (BASE_GAME_SPEED cfg) (p\<lparr>lives := STARTING_LIVES cfg\<rparr>)) e1)"

text \<open>The lanes with an obstacle within 150 px of the top, in the order of the scan.\<close>

definition recentLanes :: "engine \<Rightarrow> nat list" where
  "recentLanes e = map o_lane (filter (\<lambda>ob. y ob < 150) (obstacles e))"

definition safeLanes_of :: "engine \<Rightarrow> nat list" where
  "safeLanes_of e =
     filter (\<lambda>l. l \<notin> set (recentLanes e)) [0 ..< LANE_COUNT (game_config e)]"

definition spawnObstacle :: "rng \<Rightarrow> engine \<Rightarrow> engine" where
  "spawnObstacle rnd e =
     (let laneWidth0 = canvas_width e / real (LANE_COUNT (game_config e));
          r = Math_random rnd (rnd_pos e);
          lane0 = (if length (obstacles e) > 0
                   then let safeLanes = safeLanes_of e
                        in if length safeLanes > 0
                           then safeLanes ! nat \<lfloor>r * real (length safeLanes)\<rfloor>
                           else nat \<lfloor>r * real (LANE_COUNT (game_config e))\<rfloor>
                   else nat \<lfloor>r * real (LANE_COUNT (game_config e))\<rfloor>);
          (ob, k) = Obstacle_new rnd (Suc (rnd_pos e)) lane0 laneWidth0 None
      in e\<lparr>obstacles := obstacles e @ [ob], rnd_pos := k\<rparr>)"

text \<open>
  The type selection of \<^verbatim>\<open>spawnPowerUp\<close>: from the player's lives, the two tracking
  properties and the draw \<open>rand\<close> to \<^verbatim>\<open>'extraLife'\<close>, \<^verbatim>\<open>'shield'\<close> or \<^verbatim>\<open>null\<close>.
\<close>

definition choosePowerUpType ::
  "int \<Rightarrow> real option \<Rightarrow> (power_up_type \<rightharpoonup> real) option \<Rightarrow> real \<Rightarrow> power_up_type option" where
  "choosePowerUpType lives0 sinceLast sinceType rand =
     (if lives0 = 1
      then (if rand < 0.6 then Some ExtraLife
            else if rand < 0.9 then Some Shield
            else None)
      else if (case sinceLast of None \<Rightarrow> False | Some v \<Rightarrow> v \<noteq> 0) \<and> sinceType \<noteq> None
      then (let m = (case sinceType of Some m0 \<Rightarrow> m0 | None \<Rightarrow> Map.empty);
                timeSinceShield = or_num (m Shield) 0;
                timeSinceHeart = or_num (m ExtraLife) 0
            in if timeSinceShield > 30000 \<and> timeSinceHeart > 30000
               then (if rand < 0.45 then Some Shield
                     else if rand < 0.9 then Some ExtraLife
                     else None)
               else if timeSinceShield > 30000
               then (if rand < 0.6 then Some Shield
                     else if rand < 0.8 then Some ExtraLife
                     else None)
               else if timeSinceHeart > 30000
               then (if rand < 0.6 then Some ExtraLife
                     else if rand < 0.8 then Some Shield
                     else None)
               else (if rand < 0.35 then Some Shield
                     else if rand < 0.7 then Some ExtraLife
                     else None))
      else (if rand < 0.4 then Some Shield
            else if rand < 0.8 then Some ExtraLife
            else None))"

text \<open>
  The bookkeeping at the end of \<^verbatim>\<open>spawnPowerUp\<close>: the timer of the chosen type is reset,
  the timers of the other types grow by the time since the previous spawn.
\<close>

definition bumpTypeTimers ::
  "power_up_type option \<Rightarrow> real \<Rightarrow> real option \<Rightarrow> (power_up_type \<rightharpoonup> real) \<Rightarrow> (power_up_type \<rightharpoonup> real)" where
  "bumpTypeTimers powerUpType currentTime lastTime m0 =
     foldl (\<lambda>m t. if Some t = powerUpType then m(t \<mapsto> 0)
                   else m(t \<mapsto> or_num (m t) 0 + (currentTime - or_num lastTime currentTime)))
           m0 (map put_type POWER_UP_TYPES)"

definition spawnPowerUp :: "rng \<Rightarrow> real \<Rightarrow> engine \<Rightarrow> engine" where
  "spawnPowerUp rnd now e =
     (let laneWidth0 = canvas_width e / real (LANE_COUNT (game_config e));
          safeLanes = safeLanes_of e
      in if length safeLanes = 0
         then e\<lparr>lastPowerUpTime := gameTime e - getPowerUpSpawnInterval e + 1000\<rparr>
         else
           case player e of
             None \<Rightarrow> e\<lparr>rnd_pos := rnd_pos e + 2\<rparr>
           | Some p \<Rightarrow>
               let lane0 = safeLanes ! nat \<lfloor>Math_random rnd (rnd_pos e) * real (length safeLanes)\<rfloor>;
                   rand = Math_random rnd (rnd_pos e + 1);
                   powerUpType = choosePowerUpType (lives p) (timeSinceLastPowerUp e)
                                   (timeSinceLastPowerUpType e) rand;
                   (pu, k) = PowerUp_new rnd (rnd_pos e + 2) lane0 laneWidth0 powerUpType;
                   currentTime = now;
                   m0 = (case timeSinceLastPowerUpType e of None \<Rightarrow> Map.empty | Some m \<Rightarrow> m)
               in e\<lparr>powerUps := powerUps e @ [pu], rnd_pos := k,
                    timeSinceLastPowerUpType :=
                      Some (bumpTypeTimers powerUpType currentTime (lastPowerUpTypeTime e) m0),
                    lastPowerUpTypeTime := Some currentTime\<rparr>)"

text \<open>
  \<^verbatim>\<open>updateObstacles\<close>. The body of the loop at index \<open>i\<close>: the obstacle is updated in
  place; one that is marked for deletion is spliced out and its points are added to the
  score.
\<close>

definition obstacle_step :: "real \<Rightarrow> nat \<Rightarrow> player \<Rightarrow> engine \<Rightarrow> engine" where
  "obstacle_step deltaTime i p e =
     (let obstacle0 = Obstacle_update (game_config e) deltaTime (speed p) (canvas_height e)
                        (timeScale e) (obstacles e ! i)
      in if markedForDeletion obstacle0
         then e\<lparr>obstacles := splice1 i ((obstacles e)[i := obstacle0]),
                score := score e + \<lfloor>real_of_int (points obstacle0) * speed p * scoreMultiplier e\<rfloor>\<rparr>
         else e\<lparr>obstacles := (obstacles e)[i := obstacle0]\<rparr>)"

text \<open>
  The loop runs from the last index down; the first argument of the loop function is
  the number of indices still to visit. A loop body that reads \<^verbatim>\<open>this.player\<close> while it
  is \<^verbatim>\<open>null\<close> throws; the model then stops with the state reached.
\<close>

fun updateObstacles_loop :: "real \<Rightarrow> nat \<Rightarrow> engine \<Rightarrow> engine" where
  "updateObstacles_loop deltaTime 0 e = e"
| "updateObstacles_loop deltaTime (Suc i) e =
     (case player e of
        None \<Rightarrow> e
      | Some p \<Rightarrow> updateObstacles_loop deltaTime i (obstacle_step deltaTime i p e))"

definition updateObstacles :: "real \<Rightarrow> engine \<Rightarrow> engine" where
  "updateObstacles deltaTime e = updateObstacles_loop deltaTime (length (obstacles e)) e"

text \<open>The particle configuration of the trail of a power-up.\<close>

definition trailConfig :: "powerUp \<Rightarrow> emitterConfig" where
  "trailConfig pu = \<lparr>
     cf_x = None, cf_y = None, cf_count = Some 3,
     cf_speed = Some \<lparr> min_r = 5, max_r = 20 \<rparr>,
     cf_size = Some \<lparr> min_r = 1, max_r = 3 \<rparr>,
     cf_lifetime = Some \<lparr> min_r = 300, max_r = 600 \<rparr>,
     cf_colors = Some (case trailColor pu of Some c \<Rightarrow> [c] | None \<Rightarrow> []),
     cf_gravity = Some 0, cf_oneShot = None, cf_emitInterval = None \<rparr>"

text \<open>
  \<^verbatim>\<open>updatePowerUps\<close>. The body of the loop at index \<open>i\<close>: the power-up is updated in
  place; a trail that it asks for is emitted and the request cleared; one that is marked
  for deletion is spliced out.
\<close>

definition powerUp_step :: "rng \<Rightarrow> real \<Rightarrow> real \<Rightarrow> nat \<Rightarrow> player \<Rightarrow> engine \<Rightarrow> engine" where
  "powerUp_step rnd now deltaTime i p e =
     (let powerUp0 = PowerUp_update (game_config e) now deltaTime (speed p) (canvas_height e)
                       (timeScale e) (powerUps e ! i);
          (psys, k) =
            (if shouldCreateTrail powerUp0
             then explosion (game_config e) rnd
                    (x powerUp0 + width powerUp0 / 2) (y powerUp0 + height powerUp0 / 2)
                    (trailConfig powerUp0) (particleSystem e, rnd_pos e)
             else (particleSystem e, rnd_pos e));
          powerUp1 = powerUp0\<lparr>shouldCreateTrail := False\<rparr>
      in e\<lparr>powerUps := (if markedForDeletion powerUp1
                         then splice1 i ((powerUps e)[i := powerUp1])
                         else (powerUps e)[i := powerUp1]),
           particleSystem := psys, rnd_pos := k\<rparr>)"

fun updatePowerUps_loop :: "rng \<Rightarrow> real \<Rightarrow> real \<Rightarrow> nat \<Rightarrow> engine \<Rightarrow> engine" where
  "updatePowerUps_loop rnd now deltaTime 0 e = e"
| "updatePowerUps_loop rnd now deltaTime (Suc i) e =
     (case player e of
        None \<Rightarrow> e
      | Some p \<Rightarrow> updatePowerUps_loop rnd now deltaTime i (powerUp_step rnd now deltaTime i p e))"

definition updatePowerUps :: "rng \<Rightarrow> real \<Rightarrow> real \<Rightarrow> engine \<Rightarrow> engine" where
  "updatePowerUps rnd now deltaTime e =
     updatePowerUps_loop rnd now deltaTime (length (powerUps e)) e"

text \<open>
  \<^verbatim>\<open>applyPowerUp(powerUp)\<close> of the engine. \<^verbatim>\<open>setTimeout(f, d)\<close> appends the callback
  and its delay to the pending callbacks.
\<close>

definition applyPowerUp :: "powerUp \<Rightarrow> engine \<Rightarrow> engine" where
  "applyPowerUp pu e =
     (case effect_of pu of
        Invincibility \<Rightarrow>
          with_player (Player_applyPowerUp Invincibility (Some (duration pu))) e
      | SlowMotion \<Rightarrow>
          with_player (Player_applyPowerUp SlowMotion (Some (duration pu)))
            (e\<lparr>timeScale := 0.5,
               timeouts := timeouts e @ [(duration pu, ResetTimeScale)]\<rparr>)
      | AddLife \<Rightarrow>
          with_player (Player_applyPowerUp AddLife None) e
      | DoubleScore \<Rightarrow>
          with_player (Player_applyPowerUp DoubleScore (Some (duration pu)))
            (e\<lparr>scoreMultiplier := 2,
               timeouts := timeouts e @ [(duration pu, ResetScoreMultiplier)]\<rparr>))"

text \<open>The host runs a pending callback.\<close>

definition runCallback :: "timeout_callback \<Rightarrow> engine \<Rightarrow> engine" where
  "runCallback cb e =
     (case cb of
        ResetTimeScale \<Rightarrow> e\<lparr>timeScale := 1\<rparr>
      | ResetScoreMultiplier \<Rightarrow> e\<lparr>scoreMultiplier := 1\<rparr>)"

definition fireTimeout :: "nat \<Rightarrow> engine \<Rightarrow> engine" where
  "fireTimeout n e =
     (if n < length (timeouts e)
      then runCallback (snd (timeouts e ! n)) (e\<lparr>timeouts := splice1 n (timeouts e)\<rparr>)
      else e)"

text \<open>
  \<^verbatim>\<open>checkCollisions\<close>. What is done when the obstacle at index \<open>i\<close> is hit: the crash
  explosion, the damage, the game-over transition if the player died, the removal of the
  obstacle.
\<close>

definition hitObstacle :: "rng \<Rightarrow> nat \<Rightarrow> engine \<Rightarrow> engine" where
  "hitObstacle rnd i e =
     (let e1 = explodeAtPlayer rnd PARTICLE_CONFIG_crash e
      in case player e1 of
           None \<Rightarrow> e1
         | Some p \<Rightarrow>
             let e2 = e1\<lparr>player := Some (snd (takeDamage (game_config e1) p))\<rparr>;
                 e3 = (if fst (takeDamage (game_config e1) p) then setState_GAME_OVER e2 else e2)
             in e3\<lparr>obstacles := splice1 i (obstacles e3)\<rparr>)"

text \<open>The obstacle loop, from the last index down, leaving at the first hit.\<close>

fun collideObstacles :: "rng \<Rightarrow> nat \<Rightarrow> engine \<Rightarrow> engine" where
  "collideObstacles rnd 0 e = e"
| "collideObstacles rnd (Suc i) e =
     (case player e of
        None \<Rightarrow> e
      | Some p \<Rightarrow>
          if isCollidingWith p (hitbox_rect (obstacles e ! i))
          then hitObstacle rnd i e
          else collideObstacles rnd i e)"

text \<open>What is done when the power-up at index \<open>i\<close> is picked up.\<close>

definition pickPowerUp :: "rng \<Rightarrow> nat \<Rightarrow> engine \<Rightarrow> engine" where
  "pickPowerUp rnd i e =
     (let e1 = applyPowerUp (powerUps e ! i) e
      in explodeAtPlayer rnd PARTICLE_CONFIG_sparkle (e1\<lparr>powerUps := splice1 i (powerUps e1)\<rparr>))"

text \<open>The power-up loop, from the last index down, leaving at the first hit.\<close>

fun collidePowerUps :: "rng \<Rightarrow> nat \<Rightarrow> engine \<Rightarrow> engine" where
  "collidePowerUps rnd 0 e = e"
| "collidePowerUps rnd (Suc i) e =
     (case player e of
        None \<Rightarrow> e
      | Some p \<Rightarrow>
          if isCollidingWith p (powerUps e ! i)
          then pickPowerUp rnd i e
          else collidePowerUps rnd i e)"

definition checkPowerUpCollisions :: "rng \<Rightarrow> engine \<Rightarrow> engine" where
  "checkPowerUpCollisions rnd e = collidePowerUps rnd (length (powerUps e)) e"

definition checkCollisions :: "rng \<Rightarrow> engine \<Rightarrow> engine" where
  "checkCollisions rnd e =
     (case player e of
        None \<Rightarrow> e
      | Some p \<Rightarrow>
          if invincible p then e
          else checkPowerUpCollisions rnd (collideObstacles rnd (length (obstacles e)) e))"

text \<open>
  \<^verbatim>\<open>update(deltaTime)\<close> runs the following statements in order; each is a function of
  the state, and \<open>update\<close> is their composition. \<open>delta\<close> is the clamped step.
\<close>

text \<open>\<^verbatim>\<open>this.player.update(delta)\<close>\<close>

definition step_player :: "real \<Rightarrow> engine \<Rightarrow> engine" where
  "step_player delta e = with_player (Player_update delta) e"

text \<open>The road animation.\<close>

definition step_road :: "real \<Rightarrow> engine \<Rightarrow> engine" where
  "step_road delta e =
     (case player e of
        None \<Rightarrow> e
      | Some p \<Rightarrow>
          if roadOffset e + speed p * 200 * delta * timeScale e \<ge> canvas_height e
          then e\<lparr>roadOffset := roadOffset e + speed p * 200 * delta * timeScale e - canvas_height e\<rparr>
          else e\<lparr>roadOffset := roadOffset e + speed p * 200 * delta * timeScale e\<rparr>)"

text \<open>\<^verbatim>\<open>this.particleSystem.update(delta)\<close>\<close>

definition step_particles :: "rng \<Rightarrow> real \<Rightarrow> engine \<Rightarrow> engine" where
  "step_particles rnd delta e =
     e\<lparr>particleSystem :=
          fst (ParticleSystem_update (game_config e) rnd delta (particleSystem e, rnd_pos e)),
        rnd_pos :=
          snd (ParticleSystem_update (game_config e) rnd delta (particleSystem e, rnd_pos e))\<rparr>"

text \<open>The obstacle spawn.\<close>

definition step_spawnObstacle :: "rng \<Rightarrow> engine \<Rightarrow> engine" where
  "step_spawnObstacle rnd e =
     (if gameTime e - lastObstacleTime e > getObstacleSpawnInterval e
      then (spawnObstacle rnd e)\<lparr>lastObstacleTime := gameTime e\<rparr>
      else e)"

text \<open>
  The power-up spawn: the chance roll, the spawn, and the reset of the timer, which also
  overwrites the retry time that \<^verbatim>\<open>spawnPowerUp\<close> sets when no lane is safe.
\<close>

definition step_spawnPowerUp :: "rng \<Rightarrow> real \<Rightarrow> engine \<Rightarrow> engine" where
  "step_spawnPowerUp rnd now e =
     (if gameTime e - lastPowerUpTime e > getPowerUpSpawnInterval e
      then (if Math_random rnd (rnd_pos e) < POWER_UP_SPAWN_CHANCE (game_config e)
            then spawnPowerUp rnd now (e\<lparr>rnd_pos := Suc (rnd_pos e)\<rparr>)
            else e\<lparr>rnd_pos := Suc (rnd_pos e)\<rparr>)\<lparr>lastPowerUpTime := gameTime e\<rparr>
      else e)"

text \<open>The difficulty escalation.\<close>

definition step_difficulty :: "engine \<Rightarrow> engine" where
  "step_difficulty e =
     (if gameTime e - lastSpeedIncreaseTime e > SPEED_INCREASE_INTERVAL (game_config e)
      then (increaseDifficulty e)\<lparr>lastSpeedIncreaseTime := gameTime e\<rparr>
      else e)"

text \<open>The score from the distance travelled, and \<^verbatim>\<open>previousScore\<close>.\<close>

definition step_score :: "real \<Rightarrow> engine \<Rightarrow> engine" where
  "step_score delta e =
     (case player e of
        None \<Rightarrow> e
      | Some p \<Rightarrow>
          e\<lparr>score := score e
                 + \<lfloor>delta * (speed p * scoreMultiplier e) * SCORE_MULTIPLIER (game_config e)\<rfloor>,
             previousScore := score e
                 + \<lfloor>delta * (speed p * scoreMultiplier e) * SCORE_MULTIPLIER (game_config e)\<rfloor>\<rparr>)"

text \<open>The speed display.\<close>

definition step_speedDisplay :: "engine \<Rightarrow> engine" where
  "step_speedDisplay e =
     (case player e of
        None \<Rightarrow> e
      | Some p \<Rightarrow>
          if \<lfloor>speed p * 10\<rfloor> \<noteq> \<lfloor>gameSpeed e * 10\<rfloor> then e\<lparr>gameSpeed := speed p\<rparr> else e)"

definition update :: "rng \<Rightarrow> real \<Rightarrow> real \<Rightarrow> engine \<Rightarrow> engine" where
  "update rnd now deltaTime e =
     (case player e of
        None \<Rightarrow> e
      | Some p0 \<Rightarrow>
          step_speedDisplay
            (step_score (min deltaTime 0.1)
              (step_difficulty
                (step_spawnPowerUp rnd now
                  (step_spawnObstacle rnd
                    (checkCollisions rnd
                      (step_particles rnd (min deltaTime 0.1)
                        (updatePowerUps rnd now (min deltaTime 0.1)
                          (updateObstacles (min deltaTime 0.1)
                            (step_road (min deltaTime 0.1)
                              (step_player (min deltaTime 0.1) e)))))))))))"

text \<open>
  \<^verbatim>\<open>gameLoop(timestamp)\<close>; drawing and the request for the next animation frame are
  left to the host. \<open>frameDelta\<close> is the \<^verbatim>\<open>deltaTime\<close> that the loop computes, in
  seconds, before the time scale is applied.
\<close>

definition frameDelta :: "engine \<Rightarrow> real \<Rightarrow> real" where
  "frameDelta e timestamp =
     (if gameTime e > 0 then (timestamp - gameTime e) / 1000 else 0.016)"

definition gameLoop :: "rng \<Rightarrow> real \<Rightarrow> real \<Rightarrow> engine \<Rightarrow> engine" where
  "gameLoop rnd now timestamp e =
     (if state e \<noteq> PLAYING then e
      else update rnd now (frameDelta e timestamp * timeScale e) (e\<lparr>gameTime := timestamp\<rparr>))"

text \<open>\<^verbatim>\<open>startGame\<close>: the reset of the run, the new player, the first call of the loop.\<close>

definition resetRun :: "engine \<Rightarrow> engine" where
  "resetRun e =
     e\<lparr>score := 0, previousScore := 0, gameTime := 0,
       lastObstacleTime := 0, lastSpeedIncreaseTime := 0, lastPowerUpTime := 0,
       timeScale := 1, scoreMultiplier := 1, distance := 0,
       gameSpeed := BASE_GAME_SPEED (game_config e),
       roadOffset := 0, difficulty := 1,
       obstacles := [], powerUps := [],
       particleSystem := clear (particleSystem e)\<rparr>"

definition createPlayer :: "engine \<Rightarrow> engine" where
  "createPlayer e =
     e\<lparr>player := Some (Player_new (game_config e)
                         (canvas_width e / real (LANE_COUNT (game_config e)))
                         (canvas_height e))\<rparr>"

definition startGame :: "rng \<Rightarrow> real \<Rightarrow> engine \<Rightarrow> engine" where
  "startGame rnd now e = gameLoop rnd now 0 (createPlayer (resetRun e))"

text \<open>\<^verbatim>\<open>pauseGame\<close> and \<^verbatim>\<open>showMenu\<close> cancel the pending animation frame, show a screen
  and pause or start audio; they write no field of the state.\<close>

definition pauseGame :: "engine \<Rightarrow> engine" where
  "pauseGame e = e"

definition showMenu :: "engine \<Rightarrow> engine" where
  "showMenu e = e"

definition resumeGame :: "rng \<Rightarrow> real \<Rightarrow> engine \<Rightarrow> engine" where
  "resumeGame rnd now e = gameLoop rnd now 0 (e\<lparr>state := PLAYING\<rparr>)"

text \<open>\<^verbatim>\<open>setState\<close> as the application installs it: the method, then the event.\<close>

definition setState :: "rng \<Rightarrow> real \<Rightarrow> game_state \<Rightarrow> engine \<Rightarrow> engine" where
  "setState rnd now newState e =
     emitStateChange newState (state e)
       (case newState of
          MENU \<Rightarrow> showMenu (e\<lparr>state := newState\<rparr>)
        | PLAYING \<Rightarrow> startGame rnd now (e\<lparr>state := newState\<rparr>)
        | PAUSED \<Rightarrow> pauseGame (e\<lparr>state := newState\<rparr>)
        | GAME_OVER \<Rightarrow> endGame (e\<lparr>state := newState\<rparr>))"

definition handleInput :: "string \<Rightarrow> engine \<Rightarrow> engine" where
  "handleInput input e =
     (if state e \<noteq> PLAYING \<or> player e = None then e
      else if input = ''left'' then with_player moveLeft e
      else if input = ''right'' then with_player (moveRight (game_config e)) e
      else if input = ''accelerate'' then with_player (accelerate (game_config e)) e
      else if input = ''decelerate'' then with_player (decelerate (game_config e)) e
      else e)"

definition resizeCanvas :: "real \<Rightarrow> real \<Rightarrow> engine \<Rightarrow> engine" where
  "resizeCanvas w h e =
     (let e1 = e\<lparr>canvas_width := w, canvas_height := h\<rparr>;
          laneWidth0 = canvas_width e1 / real (LANE_COUNT (game_config e1))
      in with_player
           (\<lambda>p. let p1 = p\<lparr>laneWidth := laneWidth0\<rparr>;
                     p2 = p1\<lparr>y := canvas_height e1 - height p1 - 20\<rparr>
                 in p2\<lparr>x := laneWidth0 * real (lane p2) + (laneWidth0 - width p2) / 2\<rparr>) e1)"

subsection \<open>The host: what can happen to an engine\<close>

text \<open>
  The callers of the engine in \<^verbatim>\<open>input-controller.js\<close> and \<^verbatim>\<open>app.js\<close>, with the guards
  they test: an animation frame, a movement command, pause (only while playing), resume
  (only while paused: Escape, double tap and the resume button of the pause menu), start
  and restart, exit to the menu, a difficulty button, a resize of the window, and the
  expiry of a pending timeout. Frames and resumes carry the value of \<^verbatim>\<open>Date.now()\<close>.
\<close>

datatype event =
    Frame real real
  | Input string
  | PauseCmd
  | ResumeCmd real
  | StartCmd real
  | ExitCmd
  | DifficultyCmd string
  | Resize real real
  | TimeoutFired nat

fun step :: "rng \<Rightarrow> event \<Rightarrow> engine \<Rightarrow> engine" where
  "step rnd (Frame timestamp now) e = gameLoop rnd now timestamp e"
| "step rnd (Input input) e = handleInput input e"
| "step rnd PauseCmd e = (if state e = PLAYING then setState rnd 0 PAUSED e else e)"
| "step rnd (ResumeCmd now) e = (if state e = PAUSED then resumeGame rnd now e else e)"
| "step rnd (StartCmd now) e = setState rnd now PLAYING e"
| "step rnd ExitCmd e = setState rnd 0 MENU e"
| "step rnd (DifficultyCmd d) e = setDifficulty d e"
| "step rnd (Resize w h) e = resizeCanvas w h e"
| "step rnd (TimeoutFired n) e = fireTimeout n e"

fun run :: "rng \<Rightarrow> event list \<Rightarrow> engine \<Rightarrow> engine" where
  "run rnd [] e = e"
| "run rnd (ev # evs) e = run rnd evs (step rnd ev e)"

subsection \<open>Vocabulary of the statements\<close>

text \<open>The hitbox of an obstacle lies inside its visual bounds.\<close>

definition hitbox_within :: "obstacle \<Rightarrow> bool" where
  "hitbox_within ob \<longleftrightarrow>
     x ob \<le> x (hitbox_rect ob) \<and>
     x (hitbox_rect ob) + width (hitbox_rect ob) \<le> x ob + width ob \<and>
     y ob \<le> y (hitbox_rect ob) \<and>
     y (hitbox_rect ob) + height (hitbox_rect ob) \<le> y ob + height ob"

text \<open>A sequence of calls of \<^verbatim>\<open>Obstacle.update\<close>, each with its own arguments.\<close>

fun Obstacle_updates :: "(config \<times> real \<times> real \<times> real \<times> real) list \<Rightarrow> obstacle \<Rightarrow> obstacle" where
  "Obstacle_updates [] ob = ob"
| "Obstacle_updates ((cfg, deltaTime, playerSpeed, gameHeight0, timeScale0) # us) ob =
     Obstacle_updates us (Obstacle_update cfg deltaTime playerSpeed gameHeight0 timeScale0 ob)"

text \<open>
  The call \<^verbatim>\<open>obstacle.update(deltaTime, this.player.speed, this.canvas.height,
  this.timeScale)\<close> of \<^verbatim>\<open>updateObstacles\<close>, and the points that the removal of an
  obstacle adds to the score.
\<close>

definition moved :: "real \<Rightarrow> player \<Rightarrow> engine \<Rightarrow> obstacle \<Rightarrow> obstacle" where
  "moved deltaTime p e =
     Obstacle_update (game_config e) deltaTime (speed p) (canvas_height e) (timeScale e)"

definition award :: "player \<Rightarrow> engine \<Rightarrow> obstacle \<Rightarrow> int" where
  "award p e ob = \<lfloor>real_of_int (points ob) * speed p * scoreMultiplier e\<rfloor>"

text \<open>No obstacle in the list is marked for deletion.\<close>

definition unmarked :: "engine \<Rightarrow> bool" where
  "unmarked e \<longleftrightarrow> (\<forall>ob \<in> set (obstacles e). \<not> markedForDeletion ob)"

text \<open>The configured starting lives are between 1 and 5, as in every preset.\<close>

definition cfg_ok :: "config \<Rightarrow> bool" where
  "cfg_ok cfg \<longleftrightarrow> 1 \<le> STARTING_LIVES cfg \<and> STARTING_LIVES cfg \<le> 5"

text \<open>The lives of the player, if there is one.\<close>

definition lives_of :: "engine \<Rightarrow> int option" where
  "lives_of e = map_option lives (player e)"

text \<open>The number of \<^verbatim>\<open>stateChange\<close> events into \<^verbatim>\<open>GAME_OVER\<close> emitted so far.\<close>

definition game_overs :: "engine \<Rightarrow> nat" where
  "game_overs e = length (filter (\<lambda>c. fst c = GAME_OVER) (stateChanges e))"

text \<open>
  Lives are within \<open>[0, 5]\<close>, and while the game is playing or paused there is a player
  with at least one life.
\<close>

definition lives_ok :: "engine \<Rightarrow> bool" where
  "lives_ok e \<longleftrightarrow>
     (\<forall>l. lives_of e = Some l \<longrightarrow> 0 \<le> l \<and> l \<le> 5) \<and>
     (state e = PLAYING \<or> state e = PAUSED \<longrightarrow> (\<exists>l. lives_of e = Some l \<and> 1 \<le> l))"

definition engine_inv :: "engine \<Rightarrow> bool" where
  "engine_inv e \<longleftrightarrow> cfg_ok (game_config e) \<and> lives_ok e \<and> unmarked e"

text \<open>
  What a frame does to the state machine and the lives, from \<open>e\<close> to \<open>e'\<close>: either no
  transition and at least one life left, or exactly one transition to \<^verbatim>\<open>GAME_OVER\<close>.
\<close>

definition frame_outcome :: "engine \<Rightarrow> engine \<Rightarrow> bool" where
  "frame_outcome e e' \<longleftrightarrow>
     (state e' = state e \<and> stateChanges e' = stateChanges e
        \<and> (\<exists>l. lives_of e' = Some l \<and> 1 \<le> l \<and> l \<le> 5))
   \<or> (state e' = GAME_OVER \<and> stateChanges e' = stateChanges e @ [(GAME_OVER, state e)]
        \<and> (\<exists>l. lives_of e' = Some l \<and> 0 \<le> l \<and> l \<le> 1))"

text \<open>
  What a step of the host does, from \<open>e\<close> to \<open>e'\<close>: either it enters \<^verbatim>\<open>GAME_OVER\<close> from
  another state, with one more game-over event and the player alive before, or it emits
  no game-over event, does not enter \<^verbatim>\<open>GAME_OVER\<close> and does not bring the lives to 0.
\<close>

definition step_outcome :: "engine \<Rightarrow> engine \<Rightarrow> bool" where
  "step_outcome e e' \<longleftrightarrow>
     (state e' = GAME_OVER \<and> state e \<noteq> GAME_OVER \<and> game_overs e' = game_overs e + 1
        \<and> lives_of e \<noteq> Some 0)
   \<or> (game_overs e' = game_overs e \<and> (state e' = GAME_OVER \<longrightarrow> state e = GAME_OVER)
        \<and> (lives_of e' = Some 0 \<longrightarrow> lives_of e = Some 0))"

text \<open>
  The particle list is in order of age: no particle is older than one before it in the list,
  and no age is negative.
\<close>

definition ages_ok :: "particle list \<Rightarrow> bool" where
  "ages_ok ps \<longleftrightarrow> sorted_wrt (\<lambda>p q. age q \<le> age p) ps \<and> (\<forall>p \<in> set ps. 0 \<le> age p)"



subsection \<open>Concrete inputs\<close>

text \<open>A random stream whose every draw is 0.\<close>

definition zero_rng :: rng where
  "zero_rng k = 0"






section \<open>Proofs\<close>

subsection \<open>Collision test\<close>

text \<open>
  C8. The overlap test is symmetric in its two arguments, and its inequalities are strict
  on both axes: rectangles that only share an edge (the right edge of one is the left
  edge of the other, or the bottom edge of one is the top edge of the other) do not
  collide.
\<close>

theorem checkCollision_symmetric_strict:
  fixes A :: "'a rect_scheme" and B :: "'b rect_scheme"
  shows "checkCollision A B = checkCollision B A
       \<and> (x A + width A = x B \<longrightarrow> \<not> checkCollision A B)
       \<and> (x B + width B = x A \<longrightarrow> \<not> checkCollision A B)
       \<and> (y A + height A = y B \<longrightarrow> \<not> checkCollision A B)
       \<and> (y B + height B = y A \<longrightarrow> \<not> checkCollision A B)"
  by (auto simp: checkCollision_def)

theorem checkCollision_symmetric_strict_witness:
  "checkCollision \<lparr>x = 0, y = 0, width = 10, height = 10\<rparr> \<lparr>x = 10, y = 0, width = 5, height = 10\<rparr>
     = checkCollision \<lparr>x = 10, y = 0, width = 5, height = 10\<rparr> \<lparr>x = 0, y = 0, width = 10, height = 10\<rparr>
   \<and> x \<lparr>x = 0, y = 0, width = 10, height = 10\<rparr> + width \<lparr>x = 0, y = 0, width = 10, height = 10\<rparr>
       = x \<lparr>x = 10, y = 0, width = 5, height = 10\<rparr>
   \<and> \<not> checkCollision \<lparr>x = 0, y = 0, width = 10, height = 10\<rparr> \<lparr>x = 10, y = 0, width = 5, height = 10\<rparr>
   \<and> checkCollision \<lparr>x = 0, y = 0, width = 10, height = 10\<rparr> \<lparr>x = 9, y = 9, width = 5, height = 5\<rparr>"
  using checkCollision_symmetric_strict
    [of "\<lparr>x = 0, y = 0, width = 10, height = 10\<rparr>" "\<lparr>x = 10, y = 0, width = 5, height = 10\<rparr>"]
  by (simp add: checkCollision_def)

subsection \<open>Obstacle hitboxes\<close>

lemma random_index_lt:
  assumes "0 < n"
  shows "nat \<lfloor>Math_random rnd k * real n\<rfloor> < n"
proof -
  have f0: "0 \<le> frac (rnd k)" and f1: "frac (rnd k) < 1"
    by (simp_all add: frac_lt_1)
  have "frac (rnd k) * real n < real n"
    using f1 assms by simp
  then have "\<lfloor>frac (rnd k) * real n\<rfloor> < int n"
    by (simp add: floor_less_iff)
  moreover have "0 \<le> \<lfloor>frac (rnd k) * real n\<rfloor>"
    using f0 by simp
  ultimately show ?thesis
    by (simp add: Math_random_def nat_less_iff)
qed

lemma Obstacle_new_Some_within:
  "t \<in> set OBSTACLE_TYPES \<Longrightarrow> hitbox_within (fst (Obstacle_new rnd k lane0 lw (Some t)))"
  by (auto simp: OBSTACLE_TYPES_def Obstacle_new_def hitbox_within_def hitbox_rect_def Let_def)

lemma Obstacle_new_None_within:
  "hitbox_within (fst (Obstacle_new rnd k lane0 lw None))"
proof -
  have "nat \<lfloor>Math_random rnd k * real (length OBSTACLE_TYPES)\<rfloor> < length OBSTACLE_TYPES"
    by (rule random_index_lt) (simp add: OBSTACLE_TYPES_def)
  then have "OBSTACLE_TYPES ! nat \<lfloor>Math_random rnd k * real (length OBSTACLE_TYPES)\<rfloor> \<in> set OBSTACLE_TYPES"
    by (rule nth_mem)
  then have "hitbox_within (fst (Obstacle_new rnd (Suc k) lane0 lw
     (Some (OBSTACLE_TYPES ! nat \<lfloor>Math_random rnd k * real (length OBSTACLE_TYPES)\<rfloor>))))"
    by (rule Obstacle_new_Some_within)
  then show ?thesis
    by (simp add: Obstacle_new_def hitbox_within_def hitbox_rect_def Let_def)
qed

lemma Obstacle_update_within:
  "hitbox_within ob \<Longrightarrow> hitbox_within (Obstacle_update cfg d ps gh ts ob)"
  by (auto simp: Obstacle_update_def hitbox_within_def hitbox_rect_def Let_def rect.truncate_def
           split: option.splits)

lemma within_collision:
  fixes p :: "'a rect_scheme"
  shows "hitbox_within ob \<Longrightarrow> checkCollision p (hitbox_rect ob) \<Longrightarrow> checkCollision p ob"
  by (auto simp: hitbox_within_def checkCollision_def)


lemma Obstacle_updates_within:
  "hitbox_within ob \<Longrightarrow> hitbox_within (Obstacle_updates us ob)"
  by (induction us ob rule: Obstacle_updates.induct) (simp_all add: Obstacle_update_within)

text \<open>
  C10. An obstacle built from a catalog type (given, or drawn at random as
  \<^verbatim>\<open>spawnObstacle\<close> does) has its hitbox inside its visual bounds after construction and
  after any number of updates, so a collision of the player with the hitbox is a
  collision with the visual bounds.
\<close>

theorem catalog_hitbox_within_bounds:
  assumes "type0 = None \<or> (\<exists>t \<in> set OBSTACLE_TYPES. type0 = Some t)"
  shows "hitbox_within (Obstacle_updates us (fst (Obstacle_new rnd k lane0 lw type0)))
       \<and> (\<forall>p :: player.
            isCollidingWith p (hitbox_rect (Obstacle_updates us (fst (Obstacle_new rnd k lane0 lw type0))))
            \<longrightarrow> isCollidingWith p (Obstacle_updates us (fst (Obstacle_new rnd k lane0 lw type0))))"
proof -
  have "hitbox_within (fst (Obstacle_new rnd k lane0 lw type0))"
    using assms Obstacle_new_Some_within Obstacle_new_None_within by blast
  then have "hitbox_within (Obstacle_updates us (fst (Obstacle_new rnd k lane0 lw type0)))"
    by (rule Obstacle_updates_within)
  then show ?thesis
    by (auto simp: isCollidingWith_def intro: within_collision)
qed

theorem catalog_hitbox_within_bounds_witness:
  "(Some (OBSTACLE_TYPES ! 0) = None \<or> (\<exists>t \<in> set OBSTACLE_TYPES. Some (OBSTACLE_TYPES ! 0) = Some t))
   \<and> hitbox_within
        (Obstacle_updates [(GAME_CONFIG, 0.016, 1, 600, 1)]
           (fst (Obstacle_new zero_rng 0 1 100 (Some (OBSTACLE_TYPES ! 0)))))
   \<and> y (Obstacle_updates [(GAME_CONFIG, 0.016, 1, 600, 1)]
           (fst (Obstacle_new zero_rng 0 1 100 (Some (OBSTACLE_TYPES ! 0))))) = - 77.6
   \<and> hitbox (Obstacle_updates [(GAME_CONFIG, 0.016, 1, 600, 1)]
           (fst (Obstacle_new zero_rng 0 1 100 (Some (OBSTACLE_TYPES ! 0)))))
       = Some \<lparr> x = 125, y = - 77.6, width = 45, height = 75 \<rparr>"
proof -
  have h: "Some (OBSTACLE_TYPES ! 0) = None \<or> (\<exists>t \<in> set OBSTACLE_TYPES. Some (OBSTACLE_TYPES ! 0) = Some t)"
    by (simp add: OBSTACLE_TYPES_def)
  show ?thesis
    using h catalog_hitbox_within_bounds [OF h, of "[(GAME_CONFIG, 0.016, 1, 600, 1)]" zero_rng 0 1 100]
    by (simp add: OBSTACLE_TYPES_def Obstacle_new_def Obstacle_update_def GAME_CONFIG_def
         zero_rng_def Math_random_def Let_def)
qed

subsection \<open>Particle cap\<close>



lemma emit_particle_snd: "snd (emit_particle cfg rnd em (ps, k)) = k + 5"
  by (simp add: emit_particle_def)



lemma emit_emitters: "emitters (fst (emit cfg rnd em st)) = emitters (fst st)"
  by (simp add: emit_def split: prod.splits)












lemma age_particle_step [simp]: "age (particle_step delta p) = age p + delta * 1000"
  by (simp add: particle_step_def Let_def)




lemma age_new_particle [simp]: "age (new_particle rnd em k) = 0"
  by (simp add: new_particle_def Let_def)











lemma ages_ok_Nil [simp]: "ages_ok []"
  by (simp add: ages_ok_def)






lemma update_particles_numeral:
  "update_particles delta (numeral n) ps =
     (let p = particle_step delta (ps ! pred_numeral n);
          ps1 = ps[pred_numeral n := p]
      in update_particles delta (pred_numeral n)
           (if age p \<ge> lifetime p then splice1 (pred_numeral n) ps1 else ps1))"
  by (simp add: numeral_eq_Suc)








subsection \<open>What each statement of a frame leaves unchanged\<close>

lemma explodeAtPlayer_fields [simp]:
  "game_config (explodeAtPlayer rnd c e) = game_config e"
  "state (explodeAtPlayer rnd c e) = state e"
  "stateChanges (explodeAtPlayer rnd c e) = stateChanges e"
  "score (explodeAtPlayer rnd c e) = score e"
  "highScore (explodeAtPlayer rnd c e) = highScore e"
  "player (explodeAtPlayer rnd c e) = player e"
  "timeScale (explodeAtPlayer rnd c e) = timeScale e"
  "scoreMultiplier (explodeAtPlayer rnd c e) = scoreMultiplier e"
  "timeouts (explodeAtPlayer rnd c e) = timeouts e"
  "obstacles (explodeAtPlayer rnd c e) = obstacles e"
  "powerUps (explodeAtPlayer rnd c e) = powerUps e"
  "canvas_height (explodeAtPlayer rnd c e) = canvas_height e"
  "gameTime (explodeAtPlayer rnd c e) = gameTime e"
  "timeSinceLastPowerUp (explodeAtPlayer rnd c e) = timeSinceLastPowerUp e"
  by (simp_all add: explodeAtPlayer_def split: option.splits prod.splits)

lemma step_player_fields [simp]:
  "game_config (step_player d e) = game_config e"
  "state (step_player d e) = state e"
  "stateChanges (step_player d e) = stateChanges e"
  "score (step_player d e) = score e"
  "highScore (step_player d e) = highScore e"
  "timeScale (step_player d e) = timeScale e"
  "scoreMultiplier (step_player d e) = scoreMultiplier e"
  "timeouts (step_player d e) = timeouts e"
  "obstacles (step_player d e) = obstacles e"
  "powerUps (step_player d e) = powerUps e"
  "canvas_height (step_player d e) = canvas_height e"
  "gameTime (step_player d e) = gameTime e"
  "timeSinceLastPowerUp (step_player d e) = timeSinceLastPowerUp e"
  "player (step_player d e) = map_option (Player_update d) (player e)"
  by (simp_all add: step_player_def with_player_def)

lemma step_road_fields [simp]:
  "game_config (step_road d e) = game_config e"
  "state (step_road d e) = state e"
  "stateChanges (step_road d e) = stateChanges e"
  "score (step_road d e) = score e"
  "highScore (step_road d e) = highScore e"
  "player (step_road d e) = player e"
  "timeScale (step_road d e) = timeScale e"
  "scoreMultiplier (step_road d e) = scoreMultiplier e"
  "timeouts (step_road d e) = timeouts e"
  "obstacles (step_road d e) = obstacles e"
  "powerUps (step_road d e) = powerUps e"
  "canvas_height (step_road d e) = canvas_height e"
  "gameTime (step_road d e) = gameTime e"
  "timeSinceLastPowerUp (step_road d e) = timeSinceLastPowerUp e"
  by (simp_all add: step_road_def split: option.splits)

lemma obstacle_step_fields [simp]:
  "game_config (obstacle_step d i p e) = game_config e"
  "state (obstacle_step d i p e) = state e"
  "stateChanges (obstacle_step d i p e) = stateChanges e"
  "highScore (obstacle_step d i p e) = highScore e"
  "player (obstacle_step d i p e) = player e"
  "timeScale (obstacle_step d i p e) = timeScale e"
  "scoreMultiplier (obstacle_step d i p e) = scoreMultiplier e"
  "timeouts (obstacle_step d i p e) = timeouts e"
  "powerUps (obstacle_step d i p e) = powerUps e"
  "canvas_height (obstacle_step d i p e) = canvas_height e"
  "gameTime (obstacle_step d i p e) = gameTime e"
  "timeSinceLastPowerUp (obstacle_step d i p e) = timeSinceLastPowerUp e"
  by (simp_all add: obstacle_step_def Let_def)

lemma updateObstacles_loop_fields [simp]:
  "game_config (updateObstacles_loop d n e) = game_config e"
  "state (updateObstacles_loop d n e) = state e"
  "stateChanges (updateObstacles_loop d n e) = stateChanges e"
  "highScore (updateObstacles_loop d n e) = highScore e"
  "player (updateObstacles_loop d n e) = player e"
  "timeScale (updateObstacles_loop d n e) = timeScale e"
  "scoreMultiplier (updateObstacles_loop d n e) = scoreMultiplier e"
  "timeouts (updateObstacles_loop d n e) = timeouts e"
  "powerUps (updateObstacles_loop d n e) = powerUps e"
  "canvas_height (updateObstacles_loop d n e) = canvas_height e"
  "gameTime (updateObstacles_loop d n e) = gameTime e"
  "timeSinceLastPowerUp (updateObstacles_loop d n e) = timeSinceLastPowerUp e"
  by (induction n arbitrary: e; simp split: option.splits)+

lemma updateObstacles_fields [simp]:
  "game_config (updateObstacles d e) = game_config e"
  "state (updateObstacles d e) = state e"
  "stateChanges (updateObstacles d e) = stateChanges e"
  "highScore (updateObstacles d e) = highScore e"
  "player (updateObstacles d e) = player e"
  "timeScale (updateObstacles d e) = timeScale e"
  "scoreMultiplier (updateObstacles d e) = scoreMultiplier e"
  "timeouts (updateObstacles d e) = timeouts e"
  "powerUps (updateObstacles d e) = powerUps e"
  "canvas_height (updateObstacles d e) = canvas_height e"
  "gameTime (updateObstacles d e) = gameTime e"
  "timeSinceLastPowerUp (updateObstacles d e) = timeSinceLastPowerUp e"
  by (simp_all add: updateObstacles_def)

lemma powerUp_step_fields [simp]:
  "game_config (powerUp_step rnd now d i p e) = game_config e"
  "state (powerUp_step rnd now d i p e) = state e"
  "stateChanges (powerUp_step rnd now d i p e) = stateChanges e"
  "score (powerUp_step rnd now d i p e) = score e"
  "highScore (powerUp_step rnd now d i p e) = highScore e"
  "player (powerUp_step rnd now d i p e) = player e"
  "timeScale (powerUp_step rnd now d i p e) = timeScale e"
  "scoreMultiplier (powerUp_step rnd now d i p e) = scoreMultiplier e"
  "timeouts (powerUp_step rnd now d i p e) = timeouts e"
  "obstacles (powerUp_step rnd now d i p e) = obstacles e"
  "canvas_height (powerUp_step rnd now d i p e) = canvas_height e"
  "gameTime (powerUp_step rnd now d i p e) = gameTime e"
  "timeSinceLastPowerUp (powerUp_step rnd now d i p e) = timeSinceLastPowerUp e"
  by (simp_all add: powerUp_step_def Let_def split: option.splits prod.splits)

lemma updatePowerUps_loop_fields [simp]:
  "game_config (updatePowerUps_loop rnd now d n e) = game_config e"
  "state (updatePowerUps_loop rnd now d n e) = state e"
  "stateChanges (updatePowerUps_loop rnd now d n e) = stateChanges e"
  "score (updatePowerUps_loop rnd now d n e) = score e"
  "highScore (updatePowerUps_loop rnd now d n e) = highScore e"
  "player (updatePowerUps_loop rnd now d n e) = player e"
  "timeScale (updatePowerUps_loop rnd now d n e) = timeScale e"
  "scoreMultiplier (updatePowerUps_loop rnd now d n e) = scoreMultiplier e"
  "timeouts (updatePowerUps_loop rnd now d n e) = timeouts e"
  "obstacles (updatePowerUps_loop rnd now d n e) = obstacles e"
  "canvas_height (updatePowerUps_loop rnd now d n e) = canvas_height e"
  "gameTime (updatePowerUps_loop rnd now d n e) = gameTime e"
  "timeSinceLastPowerUp (updatePowerUps_loop rnd now d n e) = timeSinceLastPowerUp e"
  by (induction n arbitrary: e; simp split: option.splits)+

lemma updatePowerUps_fields [simp]:
  "game_config (updatePowerUps rnd now d e) = game_config e"
  "state (updatePowerUps rnd now d e) = state e"
  "stateChanges (updatePowerUps rnd now d e) = stateChanges e"
  "score (updatePowerUps rnd now d e) = score e"
  "highScore (updatePowerUps rnd now d e) = highScore e"
  "player (updatePowerUps rnd now d e) = player e"
  "timeScale (updatePowerUps rnd now d e) = timeScale e"
  "scoreMultiplier (updatePowerUps rnd now d e) = scoreMultiplier e"
  "timeouts (updatePowerUps rnd now d e) = timeouts e"
  "obstacles (updatePowerUps rnd now d e) = obstacles e"
  "canvas_height (updatePowerUps rnd now d e) = canvas_height e"
  "gameTime (updatePowerUps rnd now d e) = gameTime e"
  "timeSinceLastPowerUp (updatePowerUps rnd now d e) = timeSinceLastPowerUp e"
  by (simp_all add: updatePowerUps_def)

lemma step_particles_fields [simp]:
  "game_config (step_particles rnd d e) = game_config e"
  "state (step_particles rnd d e) = state e"
  "stateChanges (step_particles rnd d e) = stateChanges e"
  "score (step_particles rnd d e) = score e"
  "highScore (step_particles rnd d e) = highScore e"
  "player (step_particles rnd d e) = player e"
  "timeScale (step_particles rnd d e) = timeScale e"
  "scoreMultiplier (step_particles rnd d e) = scoreMultiplier e"
  "timeouts (step_particles rnd d e) = timeouts e"
  "obstacles (step_particles rnd d e) = obstacles e"
  "powerUps (step_particles rnd d e) = powerUps e"
  "canvas_height (step_particles rnd d e) = canvas_height e"
  "gameTime (step_particles rnd d e) = gameTime e"
  "timeSinceLastPowerUp (step_particles rnd d e) = timeSinceLastPowerUp e"
  by (simp_all add: step_particles_def)

lemma applyPowerUp_fields [simp]:
  "game_config (applyPowerUp pu e) = game_config e"
  "state (applyPowerUp pu e) = state e"
  "stateChanges (applyPowerUp pu e) = stateChanges e"
  "score (applyPowerUp pu e) = score e"
  "highScore (applyPowerUp pu e) = highScore e"
  "obstacles (applyPowerUp pu e) = obstacles e"
  "powerUps (applyPowerUp pu e) = powerUps e"
  "canvas_height (applyPowerUp pu e) = canvas_height e"
  "gameTime (applyPowerUp pu e) = gameTime e"
  "timeSinceLastPowerUp (applyPowerUp pu e) = timeSinceLastPowerUp e"
  by (simp_all add: applyPowerUp_def with_player_def split: effect.splits)

lemma pickPowerUp_fields [simp]:
  "game_config (pickPowerUp rnd i e) = game_config e"
  "state (pickPowerUp rnd i e) = state e"
  "stateChanges (pickPowerUp rnd i e) = stateChanges e"
  "score (pickPowerUp rnd i e) = score e"
  "highScore (pickPowerUp rnd i e) = highScore e"
  "obstacles (pickPowerUp rnd i e) = obstacles e"
  "canvas_height (pickPowerUp rnd i e) = canvas_height e"
  "gameTime (pickPowerUp rnd i e) = gameTime e"
  "timeSinceLastPowerUp (pickPowerUp rnd i e) = timeSinceLastPowerUp e"
  by (simp_all add: pickPowerUp_def Let_def)

lemma collidePowerUps_fields [simp]:
  "game_config (collidePowerUps rnd n e) = game_config e"
  "state (collidePowerUps rnd n e) = state e"
  "stateChanges (collidePowerUps rnd n e) = stateChanges e"
  "score (collidePowerUps rnd n e) = score e"
  "highScore (collidePowerUps rnd n e) = highScore e"
  "obstacles (collidePowerUps rnd n e) = obstacles e"
  "canvas_height (collidePowerUps rnd n e) = canvas_height e"
  "gameTime (collidePowerUps rnd n e) = gameTime e"
  "timeSinceLastPowerUp (collidePowerUps rnd n e) = timeSinceLastPowerUp e"
  by (induction n arbitrary: e; simp split: option.splits)+

lemma checkPowerUpCollisions_fields [simp]:
  "game_config (checkPowerUpCollisions rnd e) = game_config e"
  "state (checkPowerUpCollisions rnd e) = state e"
  "stateChanges (checkPowerUpCollisions rnd e) = stateChanges e"
  "score (checkPowerUpCollisions rnd e) = score e"
  "highScore (checkPowerUpCollisions rnd e) = highScore e"
  "obstacles (checkPowerUpCollisions rnd e) = obstacles e"
  "canvas_height (checkPowerUpCollisions rnd e) = canvas_height e"
  "gameTime (checkPowerUpCollisions rnd e) = gameTime e"
  "timeSinceLastPowerUp (checkPowerUpCollisions rnd e) = timeSinceLastPowerUp e"
  by (simp_all add: checkPowerUpCollisions_def)

lemma endGame_fields [simp]:
  "game_config (endGame e) = game_config e"
  "state (endGame e) = state e"
  "stateChanges (endGame e) = stateChanges e"
  "score (endGame e) = score e"
  "player (endGame e) = player e"
  "timeScale (endGame e) = timeScale e"
  "scoreMultiplier (endGame e) = scoreMultiplier e"
  "timeouts (endGame e) = timeouts e"
  "obstacles (endGame e) = obstacles e"
  "powerUps (endGame e) = powerUps e"
  "canvas_height (endGame e) = canvas_height e"
  "gameTime (endGame e) = gameTime e"
  "timeSinceLastPowerUp (endGame e) = timeSinceLastPowerUp e"
  by (simp_all add: endGame_def)

lemma setState_GAME_OVER_fields [simp]:
  "game_config (setState_GAME_OVER e) = game_config e"
  "score (setState_GAME_OVER e) = score e"
  "player (setState_GAME_OVER e) = player e"
  "timeScale (setState_GAME_OVER e) = timeScale e"
  "scoreMultiplier (setState_GAME_OVER e) = scoreMultiplier e"
  "timeouts (setState_GAME_OVER e) = timeouts e"
  "obstacles (setState_GAME_OVER e) = obstacles e"
  "powerUps (setState_GAME_OVER e) = powerUps e"
  "canvas_height (setState_GAME_OVER e) = canvas_height e"
  "gameTime (setState_GAME_OVER e) = gameTime e"
  "timeSinceLastPowerUp (setState_GAME_OVER e) = timeSinceLastPowerUp e"
  by (simp_all add: setState_GAME_OVER_def emitStateChange_def)

lemma hitObstacle_fields [simp]:
  "game_config (hitObstacle rnd i e) = game_config e"
  "score (hitObstacle rnd i e) = score e"
  "timeScale (hitObstacle rnd i e) = timeScale e"
  "scoreMultiplier (hitObstacle rnd i e) = scoreMultiplier e"
  "timeouts (hitObstacle rnd i e) = timeouts e"
  "powerUps (hitObstacle rnd i e) = powerUps e"
  "canvas_height (hitObstacle rnd i e) = canvas_height e"
  "gameTime (hitObstacle rnd i e) = gameTime e"
  "timeSinceLastPowerUp (hitObstacle rnd i e) = timeSinceLastPowerUp e"
  by (simp_all add: hitObstacle_def Let_def split: option.splits)

lemma collideObstacles_fields [simp]:
  "game_config (collideObstacles rnd n e) = game_config e"
  "score (collideObstacles rnd n e) = score e"
  "timeScale (collideObstacles rnd n e) = timeScale e"
  "scoreMultiplier (collideObstacles rnd n e) = scoreMultiplier e"
  "timeouts (collideObstacles rnd n e) = timeouts e"
  "powerUps (collideObstacles rnd n e) = powerUps e"
  "canvas_height (collideObstacles rnd n e) = canvas_height e"
  "gameTime (collideObstacles rnd n e) = gameTime e"
  "timeSinceLastPowerUp (collideObstacles rnd n e) = timeSinceLastPowerUp e"
  by (induction n arbitrary: e; simp split: option.splits)+

lemma checkCollisions_fields [simp]:
  "game_config (checkCollisions rnd e) = game_config e"
  "score (checkCollisions rnd e) = score e"
  "canvas_height (checkCollisions rnd e) = canvas_height e"
  "gameTime (checkCollisions rnd e) = gameTime e"
  "timeSinceLastPowerUp (checkCollisions rnd e) = timeSinceLastPowerUp e"
  by (simp_all add: checkCollisions_def split: option.splits)

lemma spawnObstacle_fields [simp]:
  "game_config (spawnObstacle rnd e) = game_config e"
  "state (spawnObstacle rnd e) = state e"
  "stateChanges (spawnObstacle rnd e) = stateChanges e"
  "score (spawnObstacle rnd e) = score e"
  "highScore (spawnObstacle rnd e) = highScore e"
  "player (spawnObstacle rnd e) = player e"
  "timeScale (spawnObstacle rnd e) = timeScale e"
  "scoreMultiplier (spawnObstacle rnd e) = scoreMultiplier e"
  "timeouts (spawnObstacle rnd e) = timeouts e"
  "powerUps (spawnObstacle rnd e) = powerUps e"
  "canvas_height (spawnObstacle rnd e) = canvas_height e"
  "gameTime (spawnObstacle rnd e) = gameTime e"
  "timeSinceLastPowerUp (spawnObstacle rnd e) = timeSinceLastPowerUp e"
  by (simp_all add: spawnObstacle_def Let_def split: prod.splits)

lemma step_spawnObstacle_fields [simp]:
  "game_config (step_spawnObstacle rnd e) = game_config e"
  "state (step_spawnObstacle rnd e) = state e"
  "stateChanges (step_spawnObstacle rnd e) = stateChanges e"
  "score (step_spawnObstacle rnd e) = score e"
  "highScore (step_spawnObstacle rnd e) = highScore e"
  "player (step_spawnObstacle rnd e) = player e"
  "timeScale (step_spawnObstacle rnd e) = timeScale e"
  "scoreMultiplier (step_spawnObstacle rnd e) = scoreMultiplier e"
  "timeouts (step_spawnObstacle rnd e) = timeouts e"
  "powerUps (step_spawnObstacle rnd e) = powerUps e"
  "canvas_height (step_spawnObstacle rnd e) = canvas_height e"
  "gameTime (step_spawnObstacle rnd e) = gameTime e"
  "timeSinceLastPowerUp (step_spawnObstacle rnd e) = timeSinceLastPowerUp e"
  by (simp_all add: step_spawnObstacle_def)

lemma spawnPowerUp_fields [simp]:
  "game_config (spawnPowerUp rnd now e) = game_config e"
  "state (spawnPowerUp rnd now e) = state e"
  "stateChanges (spawnPowerUp rnd now e) = stateChanges e"
  "score (spawnPowerUp rnd now e) = score e"
  "highScore (spawnPowerUp rnd now e) = highScore e"
  "player (spawnPowerUp rnd now e) = player e"
  "timeScale (spawnPowerUp rnd now e) = timeScale e"
  "scoreMultiplier (spawnPowerUp rnd now e) = scoreMultiplier e"
  "timeouts (spawnPowerUp rnd now e) = timeouts e"
  "obstacles (spawnPowerUp rnd now e) = obstacles e"
  "canvas_height (spawnPowerUp rnd now e) = canvas_height e"
  "gameTime (spawnPowerUp rnd now e) = gameTime e"
  "timeSinceLastPowerUp (spawnPowerUp rnd now e) = timeSinceLastPowerUp e"
  by (simp_all add: spawnPowerUp_def Let_def split: option.splits prod.splits)

lemma step_spawnPowerUp_fields [simp]:
  "game_config (step_spawnPowerUp rnd now e) = game_config e"
  "state (step_spawnPowerUp rnd now e) = state e"
  "stateChanges (step_spawnPowerUp rnd now e) = stateChanges e"
  "score (step_spawnPowerUp rnd now e) = score e"
  "highScore (step_spawnPowerUp rnd now e) = highScore e"
  "player (step_spawnPowerUp rnd now e) = player e"
  "timeScale (step_spawnPowerUp rnd now e) = timeScale e"
  "scoreMultiplier (step_spawnPowerUp rnd now e) = scoreMultiplier e"
  "timeouts (step_spawnPowerUp rnd now e) = timeouts e"
  "obstacles (step_spawnPowerUp rnd now e) = obstacles e"
  "canvas_height (step_spawnPowerUp rnd now e) = canvas_height e"
  "gameTime (step_spawnPowerUp rnd now e) = gameTime e"
  "timeSinceLastPowerUp (step_spawnPowerUp rnd now e) = timeSinceLastPowerUp e"
  by (simp_all add: step_spawnPowerUp_def)

lemma increaseDifficulty_fields [simp]:
  "game_config (increaseDifficulty e) = game_config e"
  "state (increaseDifficulty e) = state e"
  "stateChanges (increaseDifficulty e) = stateChanges e"
  "score (increaseDifficulty e) = score e"
  "highScore (increaseDifficulty e) = highScore e"
  "timeScale (increaseDifficulty e) = timeScale e"
  "scoreMultiplier (increaseDifficulty e) = scoreMultiplier e"
  "timeouts (increaseDifficulty e) = timeouts e"
  "obstacles (increaseDifficulty e) = obstacles e"
  "powerUps (increaseDifficulty e) = powerUps e"
  "canvas_height (increaseDifficulty e) = canvas_height e"
  "gameTime (increaseDifficulty e) = gameTime e"
  "timeSinceLastPowerUp (increaseDifficulty e) = timeSinceLastPowerUp e"
  by (simp_all add: increaseDifficulty_def Let_def split: option.splits)

lemma step_difficulty_fields [simp]:
  "game_config (step_difficulty e) = game_config e"
  "state (step_difficulty e) = state e"
  "stateChanges (step_difficulty e) = stateChanges e"
  "score (step_difficulty e) = score e"
  "highScore (step_difficulty e) = highScore e"
  "timeScale (step_difficulty e) = timeScale e"
  "scoreMultiplier (step_difficulty e) = scoreMultiplier e"
  "timeouts (step_difficulty e) = timeouts e"
  "obstacles (step_difficulty e) = obstacles e"
  "powerUps (step_difficulty e) = powerUps e"
  "canvas_height (step_difficulty e) = canvas_height e"
  "gameTime (step_difficulty e) = gameTime e"
  "timeSinceLastPowerUp (step_difficulty e) = timeSinceLastPowerUp e"
  by (simp_all add: step_difficulty_def)

lemma step_score_fields [simp]:
  "game_config (step_score d e) = game_config e"
  "state (step_score d e) = state e"
  "stateChanges (step_score d e) = stateChanges e"
  "highScore (step_score d e) = highScore e"
  "player (step_score d e) = player e"
  "timeScale (step_score d e) = timeScale e"
  "scoreMultiplier (step_score d e) = scoreMultiplier e"
  "timeouts (step_score d e) = timeouts e"
  "obstacles (step_score d e) = obstacles e"
  "powerUps (step_score d e) = powerUps e"
  "canvas_height (step_score d e) = canvas_height e"
  "gameTime (step_score d e) = gameTime e"
  "timeSinceLastPowerUp (step_score d e) = timeSinceLastPowerUp e"
  by (simp_all add: step_score_def split: option.splits)

lemma step_speedDisplay_fields [simp]:
  "game_config (step_speedDisplay e) = game_config e"
  "state (step_speedDisplay e) = state e"
  "stateChanges (step_speedDisplay e) = stateChanges e"
  "score (step_speedDisplay e) = score e"
  "highScore (step_speedDisplay e) = highScore e"
  "player (step_speedDisplay e) = player e"
  "timeScale (step_speedDisplay e) = timeScale e"
  "scoreMultiplier (step_speedDisplay e) = scoreMultiplier e"
  "timeouts (step_speedDisplay e) = timeouts e"
  "obstacles (step_speedDisplay e) = obstacles e"
  "powerUps (step_speedDisplay e) = powerUps e"
  "canvas_height (step_speedDisplay e) = canvas_height e"
  "gameTime (step_speedDisplay e) = gameTime e"
  "timeSinceLastPowerUp (step_speedDisplay e) = timeSinceLastPowerUp e"
  by (simp_all add: step_speedDisplay_def split: option.splits)

lemma update_fields [simp]:
  "game_config (update rnd now d e) = game_config e"
  "canvas_height (update rnd now d e) = canvas_height e"
  "gameTime (update rnd now d e) = gameTime e"
  "timeSinceLastPowerUp (update rnd now d e) = timeSinceLastPowerUp e"
  by (simp_all add: update_def split: option.splits)


subsection \<open>Obstacles leaving the screen\<close>



lemma moved_obstacle_step [simp]: "moved d p (obstacle_step d' i p' e) = moved d p e"
  by (simp add: moved_def)

lemma award_obstacle_step [simp]: "award p (obstacle_step d' i p' e) = award p e"
  by (simp add: award_def fun_eq_iff)

lemma obstacle_step_char:
  assumes "i < length (obstacles e)"
  shows "obstacles (obstacle_step d i p e) =
           take i (obstacles e)
           @ filter (\<lambda>ob. \<not> markedForDeletion ob) [moved d p e (obstacles e ! i)]
           @ drop (Suc i) (obstacles e)"
    and "score (obstacle_step d i p e) =
           score e + sum_list (map (award p e) (filter markedForDeletion [moved d p e (obstacles e ! i)]))"
  using assms
  by (simp_all add: obstacle_step_def moved_def award_def Let_def splice1_def upd_conv_take_nth_drop)

lemma updateObstacles_loop_char:
  assumes "player e = Some p" "n \<le> length (obstacles e)"
  shows "obstacles (updateObstacles_loop d n e) =
           filter (\<lambda>ob. \<not> markedForDeletion ob) (map (moved d p e) (take n (obstacles e)))
           @ drop n (obstacles e)
       \<and> score (updateObstacles_loop d n e) =
           score e + sum_list (map (award p e)
                       (filter markedForDeletion (map (moved d p e) (take n (obstacles e)))))"
  using assms
proof (induction n arbitrary: e)
  case 0
  then show ?case by simp
next
  case (Suc n)
  let ?e' = "obstacle_step d n p e"
  have lt: "n < length (obstacles e)" using Suc.prems by simp
  have pl: "player ?e' = Some p" using Suc.prems by simp
  have ob': "obstacles ?e' = take n (obstacles e)
           @ filter (\<lambda>ob. \<not> markedForDeletion ob) [moved d p e (obstacles e ! n)]
           @ drop (Suc n) (obstacles e)"
    by (rule obstacle_step_char [OF lt])
  have len: "n \<le> length (obstacles ?e')" using lt by (simp add: ob')
  have tk: "take n (obstacles ?e') = take n (obstacles e)"
    using lt by (simp add: ob')
  have dr: "drop n (obstacles ?e') =
        filter (\<lambda>ob. \<not> markedForDeletion ob) [moved d p e (obstacles e ! n)] @ drop (Suc n) (obstacles e)"
    using lt by (simp add: ob')
  have sc: "score ?e' = score e + sum_list (map (award p e) (filter markedForDeletion [moved d p e (obstacles e ! n)]))"
    by (rule obstacle_step_char [OF lt])
  have step: "updateObstacles_loop d (Suc n) e = updateObstacles_loop d n ?e'"
    using Suc.prems by simp
  have tS: "take (Suc n) (obstacles e) = take n (obstacles e) @ [obstacles e ! n]"
    using lt by (simp add: take_Suc_conv_app_nth)
  show ?case
    unfolding step using Suc.IH [OF pl len]
    by (simp add: tk dr sc tS)
qed

lemma Obstacle_update_marked:
  "markedForDeletion (Obstacle_update cfg d ps gh ts ob) \<longleftrightarrow>
     markedForDeletion ob \<or> y (Obstacle_update cfg d ps gh ts ob) > gh"
  by (simp add: Obstacle_update_def Let_def split: option.splits)

lemma updateObstacles_char:
  assumes "player e = Some p" "unmarked e"
  shows "obstacles (updateObstacles d e) =
           filter (\<lambda>ob. \<not> y ob > canvas_height e) (map (moved d p e) (obstacles e))"
    and "score (updateObstacles d e) =
           score e + sum_list (map (award p e)
                       (filter (\<lambda>ob. y ob > canvas_height e) (map (moved d p e) (obstacles e))))"
    and "unmarked (updateObstacles d e)"
proof -
  have m: "\<And>ob. ob \<in> set (obstacles e) \<Longrightarrow>
        markedForDeletion (moved d p e ob) \<longleftrightarrow> y (moved d p e ob) > canvas_height e"
    using assms(2) by (simp add: unmarked_def moved_def Obstacle_update_marked)
  have f1: "filter (\<lambda>ob. \<not> markedForDeletion ob) (map (moved d p e) (obstacles e))
          = filter (\<lambda>ob. \<not> y ob > canvas_height e) (map (moved d p e) (obstacles e))"
    using m by (simp add: filter_map comp_def cong: filter_cong)
  have f2: "filter markedForDeletion (map (moved d p e) (obstacles e))
          = filter (\<lambda>ob. y ob > canvas_height e) (map (moved d p e) (obstacles e))"
    using m by (simp add: filter_map comp_def cong: filter_cong)
  note c = updateObstacles_loop_char [OF assms(1) order_refl, of d]
  show o: "obstacles (updateObstacles d e) =
           filter (\<lambda>ob. \<not> y ob > canvas_height e) (map (moved d p e) (obstacles e))"
    using c by (simp add: updateObstacles_def f1)
  show "score (updateObstacles d e) =
           score e + sum_list (map (award p e)
                       (filter (\<lambda>ob. y ob > canvas_height e) (map (moved d p e) (obstacles e))))"
    using c by (simp add: updateObstacles_def f2)
  have "obstacles (updateObstacles d e) =
      filter (\<lambda>ob. \<not> markedForDeletion ob) (map (moved d p e) (obstacles e))"
    using c by (simp add: updateObstacles_def)
  then show "unmarked (updateObstacles d e)"
    by (simp add: unmarked_def)
qed



subsection \<open>Lives and the game-over transition\<close>



lemma Player_update_lives [simp]: "lives (Player_update d p) = lives p"
  by (simp add: Player_update_def Let_def split: option.splits effect.splits)

lemma Player_applyPowerUp_lives:
  "lives (Player_applyPowerUp t dur p) = (if t = AddLife then min (lives p + 1) 5 else lives p)"
  by (simp add: Player_applyPowerUp_def Let_def split: effect.splits)

lemma takeDamage_invincible: "invincible p \<Longrightarrow> takeDamage cfg p = (False, p)"
  by (simp add: takeDamage_def)

lemma takeDamage_vulnerable:
  "\<not> invincible p \<Longrightarrow> fst (takeDamage cfg p) = (lives p \<le> 1)"
  "\<not> invincible p \<Longrightarrow> lives (snd (takeDamage cfg p)) = lives p - 1"
  by (simp_all add: takeDamage_def Let_def)

lemma takeDamage_lives: "lives (snd (takeDamage cfg p)) = (if invincible p then lives p else lives p - 1)"
  by (simp add: takeDamage_def Let_def)

lemma lives_of_simps [simp]:
  "lives_of (explodeAtPlayer rnd c e) = lives_of e"
  "lives_of (step_player d e) = lives_of e"
  "lives_of (step_road d e) = lives_of e"
  "lives_of (updateObstacles d e) = lives_of e"
  "lives_of (updatePowerUps rnd now d e) = lives_of e"
  "lives_of (step_particles rnd d e) = lives_of e"
  "lives_of (step_spawnObstacle rnd e) = lives_of e"
  "lives_of (step_spawnPowerUp rnd now e) = lives_of e"
  "lives_of (step_score d e) = lives_of e"
  "lives_of (step_speedDisplay e) = lives_of e"
  "lives_of (setState_GAME_OVER e) = lives_of e"
  by (simp_all add: lives_of_def option.map_comp comp_def)

lemma lives_of_step_difficulty [simp]: "lives_of (step_difficulty e) = lives_of e"
  by (simp add: lives_of_def step_difficulty_def increaseDifficulty_def setSpeed_def Let_def
      split: option.splits)

lemma lives_of_applyPowerUp:
  "lives_of (applyPowerUp pu e) =
     (if effect_of pu = AddLife then map_option (\<lambda>l. min (l + 1) 5) (lives_of e) else lives_of e)"
  by (simp add: lives_of_def applyPowerUp_def with_player_def option.map_comp comp_def
        Player_applyPowerUp_lives split: effect.splits)

lemma lives_of_pickPowerUp:
  "lives_of (pickPowerUp rnd i e) = lives_of e
   \<or> lives_of (pickPowerUp rnd i e) = map_option (\<lambda>l. min (l + 1) 5) (lives_of e)"
proof -
  have "lives_of (pickPowerUp rnd i e) = lives_of (applyPowerUp (powerUps e ! i) e)"
    by (simp add: pickPowerUp_def Let_def lives_of_def)
  then show ?thesis
    by (simp add: lives_of_applyPowerUp)
qed

lemma collidePowerUps_cases:
  "collidePowerUps rnd n e = e \<or> (\<exists>i<n. collidePowerUps rnd n e = pickPowerUp rnd i e)"
proof (induction n)
  case 0
  then show ?case by simp
next
  case (Suc n)
  then show ?case
    by (auto simp: less_Suc_eq split: option.splits)
qed

lemma collideObstacles_cases:
  "collideObstacles rnd n e = e \<or> (\<exists>i<n. collideObstacles rnd n e = hitObstacle rnd i e)"
proof (induction n)
  case 0
  then show ?case by simp
next
  case (Suc n)
  then show ?case
    by (auto simp: less_Suc_eq split: option.splits)
qed

lemma lives_of_checkPowerUpCollisions:
  "lives_of (checkPowerUpCollisions rnd e) = lives_of e
   \<or> lives_of (checkPowerUpCollisions rnd e) = map_option (\<lambda>l. min (l + 1) 5) (lives_of e)"
proof -
  consider "collidePowerUps rnd (length (powerUps e)) e = e"
    | i where "collidePowerUps rnd (length (powerUps e)) e = pickPowerUp rnd i e"
    using collidePowerUps_cases [of rnd "length (powerUps e)" e] by blast
  then show ?thesis
  proof cases
    case 1
    then show ?thesis by (simp add: checkPowerUpCollisions_def)
  next
    case 2
    then show ?thesis
      using lives_of_pickPowerUp [of rnd i e] by (simp add: checkPowerUpCollisions_def)
  qed
qed

lemma hitObstacle_outcome:
  assumes "player e = Some p" "\<not> invincible p"
  shows "lives_of (hitObstacle rnd i e) = Some (lives p - 1)"
    and "lives p \<le> 1 \<Longrightarrow> state (hitObstacle rnd i e) = GAME_OVER
            \<and> stateChanges (hitObstacle rnd i e) = stateChanges e @ [(GAME_OVER, state e)]"
    and "\<not> lives p \<le> 1 \<Longrightarrow> state (hitObstacle rnd i e) = state e
            \<and> stateChanges (hitObstacle rnd i e) = stateChanges e"
  using assms
  by (simp_all add: hitObstacle_def Let_def lives_of_def takeDamage_vulnerable
        setState_GAME_OVER_def emitStateChange_def endGame_def)





lemma checkCollisions_outcome:
  assumes l: "lives_of e = Some l" "1 \<le> l" "l \<le> 5"
  shows "frame_outcome e (checkCollisions rnd e)"
proof -
  obtain p where p: "player e = Some p" "lives p = l"
    using l(1) by (auto simp: lives_of_def)
  show ?thesis
  proof (cases "invincible p")
    case True
    then show ?thesis using p l by (simp add: checkCollisions_def frame_outcome_def)
  next
    case False
    let ?e1 = "collideObstacles rnd (length (obstacles e)) e"
    have cc: "checkCollisions rnd e = checkPowerUpCollisions rnd ?e1"
      using p False by (simp add: checkCollisions_def)
    have st: "state (checkPowerUpCollisions rnd ?e1) = state ?e1"
         "stateChanges (checkPowerUpCollisions rnd ?e1) = stateChanges ?e1"
      by simp_all
    note pw = lives_of_checkPowerUpCollisions [of rnd ?e1]
    consider "?e1 = e" | i where "?e1 = hitObstacle rnd i e"
      using collideObstacles_cases [of rnd "length (obstacles e)" e] by blast
    then show ?thesis
    proof cases
      case 1
      then show ?thesis
        using pw l st unfolding cc frame_outcome_def by auto
    next
      case 2
      have h1: "lives_of ?e1 = Some (l - 1)"
        using hitObstacle_outcome(1) [OF p(1) False, of rnd i] p(2) 2 by simp
      show ?thesis
      proof (cases "l \<le> 1")
        case True
        then have "state ?e1 = GAME_OVER \<and> stateChanges ?e1 = stateChanges e @ [(GAME_OVER, state e)]"
          using hitObstacle_outcome(2) [OF p(1) False, of rnd i] p(2) 2 by simp
        then show ?thesis
          using pw h1 l True st unfolding cc frame_outcome_def by auto
      next
        case False
        then have "state ?e1 = state e \<and> stateChanges ?e1 = stateChanges e"
          using hitObstacle_outcome(3) [OF p(1) \<open>\<not> invincible p\<close>, of rnd i] p(2) 2 by simp
        then show ?thesis
          using pw h1 l False st unfolding cc frame_outcome_def by auto
      qed
    qed
  qed
qed

lemma checkCollisions_no_obstacles:
  "obstacles e = [] \<Longrightarrow> state (checkCollisions rnd e) = state e
     \<and> stateChanges (checkCollisions rnd e) = stateChanges e"
  by (simp add: checkCollisions_def split: option.splits)

lemma frame_outcome_cong:
  assumes "frame_outcome e1 e'" "state e1 = state e" "stateChanges e1 = stateChanges e"
  shows "frame_outcome e e'"
  using assms by (simp add: frame_outcome_def)

lemma frame_outcome_post:
  assumes "frame_outcome e e1" "state e' = state e1" "stateChanges e' = stateChanges e1"
    "lives_of e' = lives_of e1"
  shows "frame_outcome e e'"
  using assms by (simp add: frame_outcome_def)

lemma update_outcome:
  assumes l: "lives_of e = Some l" "1 \<le> l" "l \<le> 5"
  shows "frame_outcome e (update rnd now d e)"
proof -
  let ?d = "min d (1 / 10)"
  let ?ea = "step_particles rnd ?d (updatePowerUps rnd now ?d
               (updateObstacles ?d (step_road ?d (step_player ?d e))))"
  have la: "lives_of ?ea = Some l" using l(1) by simp
  have "frame_outcome ?ea (checkCollisions rnd ?ea)"
    using la l(2,3) by (rule checkCollisions_outcome)
  then have c: "frame_outcome e (checkCollisions rnd ?ea)"
    by (rule frame_outcome_cong) simp_all
  obtain p where p: "player e = Some p" using l(1) by (auto simp: lives_of_def)
  have u: "update rnd now d e =
      step_speedDisplay (step_score ?d (step_difficulty (step_spawnPowerUp rnd now
        (step_spawnObstacle rnd (checkCollisions rnd ?ea)))))"
    using p by (simp add: update_def)
  show ?thesis
    unfolding u by (rule frame_outcome_post [OF c]) simp_all
qed

lemma update_no_obstacles:
  assumes "obstacles e = []"
  shows "state (update rnd now d e) = state e \<and> stateChanges (update rnd now d e) = stateChanges e"
proof (cases "player e")
  case None
  then show ?thesis by (simp add: update_def)
next
  case (Some p)
  let ?d = "min d (1 / 10)"
  let ?ea = "step_particles rnd ?d (updatePowerUps rnd now ?d
               (updateObstacles ?d (step_road ?d (step_player ?d e))))"
  have "obstacles (updateObstacles ?d (step_road ?d (step_player ?d e))) = []"
    using assms by (simp add: updateObstacles_def)
  then have "obstacles ?ea = []" by simp
  from checkCollisions_no_obstacles [OF this, of rnd] show ?thesis
    using Some by (simp add: update_def)
qed





lemma unmarked_subset:
  "unmarked e \<Longrightarrow> set (obstacles e') \<subseteq> set (obstacles e) \<Longrightarrow> unmarked e'"
  by (auto simp: unmarked_def)

lemma set_splice1: "set (splice1 i xs) \<subseteq> set xs"
  by (auto simp: splice1_def dest: in_set_takeD in_set_dropD)

lemma hitObstacle_obstacles: "set (obstacles (hitObstacle rnd i e)) \<subseteq> set (obstacles e)"
  using set_splice1 [of i "obstacles e"]
  by (simp add: hitObstacle_def Let_def split: option.splits)

lemma collideObstacles_obstacles:
  "set (obstacles (collideObstacles rnd n e)) \<subseteq> set (obstacles e)"
proof -
  consider "collideObstacles rnd n e = e" | i where "collideObstacles rnd n e = hitObstacle rnd i e"
    using collideObstacles_cases [of rnd n e] by blast
  then show ?thesis
  proof cases
    case 1
    then show ?thesis by simp
  next
    case 2
    then show ?thesis using hitObstacle_obstacles [of rnd i e] by simp
  qed
qed

lemma checkCollisions_obstacles: "set (obstacles (checkCollisions rnd e)) \<subseteq> set (obstacles e)"
  using collideObstacles_obstacles [of rnd "length (obstacles e)" e]
  by (simp add: checkCollisions_def split: option.splits)

lemma Obstacle_new_unmarked [simp]: "\<not> markedForDeletion (fst (Obstacle_new rnd k l lw t))"
  by (simp add: Obstacle_new_def Let_def split: option.splits prod.splits)

lemma spawnObstacle_unmarked: "unmarked e \<Longrightarrow> unmarked (spawnObstacle rnd e)"
  by (simp add: spawnObstacle_def Let_def case_prod_beta unmarked_def)

lemma step_spawnObstacle_unmarked: "unmarked e \<Longrightarrow> unmarked (step_spawnObstacle rnd e)"
  using spawnObstacle_unmarked [of e rnd]
  by (simp add: step_spawnObstacle_def unmarked_def)

lemma unmarked_same: "obstacles e' = obstacles e \<Longrightarrow> unmarked e' = unmarked e"
  by (simp add: unmarked_def)

lemma update_unmarked:
  assumes "unmarked e"
  shows "unmarked (update rnd now d e)"
proof (cases "player e")
  case None
  then show ?thesis using assms by (simp add: update_def)
next
  case (Some p)
  let ?d = "min d (1 / 10)"
  let ?e1 = "step_road ?d (step_player ?d e)"
  have p1: "player ?e1 = Some (Player_update ?d p)" using Some by simp
  have "unmarked ?e1" using assms by (simp add: unmarked_def)
  from updateObstacles_char(3) [OF p1 this]
  have "unmarked (updateObstacles ?d ?e1)" .
  then have "unmarked (step_particles rnd ?d (updatePowerUps rnd now ?d (updateObstacles ?d ?e1)))"
    by (simp add: unmarked_def)
  then have "unmarked (checkCollisions rnd
      (step_particles rnd ?d (updatePowerUps rnd now ?d (updateObstacles ?d ?e1))))"
    by (rule unmarked_subset) (rule checkCollisions_obstacles)
  then have "unmarked (step_spawnObstacle rnd (checkCollisions rnd
      (step_particles rnd ?d (updatePowerUps rnd now ?d (updateObstacles ?d ?e1)))))"
    by (rule step_spawnObstacle_unmarked)
  then show ?thesis
    using Some by (simp add: update_def unmarked_def)
qed

lemma game_overs_append:
  "stateChanges e' = stateChanges e @ cs \<Longrightarrow>
     game_overs e' = game_overs e + length (filter (\<lambda>c. fst c = GAME_OVER) cs)"
  by (simp add: game_overs_def)

lemma playing_frame:
  assumes "engine_inv e" "state e = PLAYING"
  shows "engine_inv (update rnd now d e) \<and> step_outcome e (update rnd now d e)"
proof -
  obtain l where l: "lives_of e = Some l" "1 \<le> l" "l \<le> 5"
    using assms by (auto simp: engine_inv_def lives_ok_def)
  have u: "unmarked (update rnd now d e)"
    using assms(1) by (simp add: engine_inv_def update_unmarked)
  have c: "cfg_ok (game_config (update rnd now d e))"
    using assms(1) by (simp add: engine_inv_def)
  from update_outcome [OF l, of rnd now d]
  consider (alive) "state (update rnd now d e) = state e"
      "stateChanges (update rnd now d e) = stateChanges e"
      "\<exists>l'. lives_of (update rnd now d e) = Some l' \<and> 1 \<le> l' \<and> l' \<le> 5"
    | (dead) "state (update rnd now d e) = GAME_OVER"
      "stateChanges (update rnd now d e) = stateChanges e @ [(GAME_OVER, state e)]"
      "\<exists>l'. lives_of (update rnd now d e) = Some l' \<and> 0 \<le> l' \<and> l' \<le> 1"
    by (auto simp: frame_outcome_def)
  then show ?thesis
  proof cases
    case alive
    then show ?thesis
      using u c assms(2) l by (auto simp: engine_inv_def lives_ok_def step_outcome_def game_overs_def)
  next
    case dead
    have "game_overs (update rnd now d e) = game_overs e + 1"
      using game_overs_append [OF dead(2)] by simp
    then show ?thesis
      using u c assms(2) l dead by (auto simp: engine_inv_def lives_ok_def step_outcome_def)
  qed
qed

lemma inv_gameTime [simp]: "engine_inv (e\<lparr>gameTime := t\<rparr>) = engine_inv e"
  by (simp add: engine_inv_def lives_ok_def lives_of_def unmarked_def)

lemma step_outcome_gameTime [simp]: "step_outcome (e\<lparr>gameTime := t\<rparr>) e' = step_outcome e e'"
  by (simp add: step_outcome_def lives_of_def game_overs_def)

lemma gameLoop_step:
  assumes "engine_inv e"
  shows "engine_inv (gameLoop rnd now ts e) \<and> step_outcome e (gameLoop rnd now ts e)"
proof (cases "state e = PLAYING")
  case True
  then show ?thesis
    using playing_frame [of "e\<lparr>gameTime := ts\<rparr>" rnd now] assms
    by (simp add: gameLoop_def)
next
  case False
  then show ?thesis
    using assms by (simp add: gameLoop_def step_outcome_def)
qed





lemma step_outcome_same:
  assumes "state e' = state e" "stateChanges e' = stateChanges e" "lives_of e' = lives_of e"
  shows "step_outcome e e'"
  using assms by (simp add: step_outcome_def game_overs_def)

lemma inv_same:
  assumes "engine_inv e" "game_config e' = game_config e" "state e' = state e"
    "lives_of e' = lives_of e" "obstacles e' = obstacles e"
  shows "engine_inv e'"
  using assms by (simp add: engine_inv_def lives_ok_def unmarked_def)

lemma move_lives [simp]:
  "lives (moveLeft p) = lives p" "lives (moveRight cfg p) = lives p"
  "lives (accelerate cfg p) = lives p" "lives (decelerate cfg p) = lives p"
  by (simp_all add: moveLeft_def moveRight_def accelerate_def decelerate_def)

lemma handleInput_step:
  assumes "engine_inv e"
  shows "engine_inv (handleInput i e) \<and> step_outcome e (handleInput i e)"
proof -
  have "game_config (handleInput i e) = game_config e" "state (handleInput i e) = state e"
    "stateChanges (handleInput i e) = stateChanges e" "obstacles (handleInput i e) = obstacles e"
    "lives_of (handleInput i e) = lives_of e"
    by (simp_all add: handleInput_def with_player_def lives_of_def option.map_comp comp_def)
  then show ?thesis
    using assms by (simp add: inv_same step_outcome_same)
qed

lemma resizeCanvas_step:
  assumes "engine_inv e"
  shows "engine_inv (resizeCanvas w h e) \<and> step_outcome e (resizeCanvas w h e)"
proof -
  have "game_config (resizeCanvas w h e) = game_config e" "state (resizeCanvas w h e) = state e"
    "stateChanges (resizeCanvas w h e) = stateChanges e" "obstacles (resizeCanvas w h e) = obstacles e"
    "lives_of (resizeCanvas w h e) = lives_of e"
    by (simp_all add: resizeCanvas_def with_player_def lives_of_def option.map_comp comp_def Let_def)
  then show ?thesis
    using assms by (simp add: inv_same step_outcome_same)
qed

lemma fireTimeout_step:
  assumes "engine_inv e"
  shows "engine_inv (fireTimeout n e) \<and> step_outcome e (fireTimeout n e)"
proof -
  have "game_config (fireTimeout n e) = game_config e" "state (fireTimeout n e) = state e"
    "stateChanges (fireTimeout n e) = stateChanges e" "obstacles (fireTimeout n e) = obstacles e"
    "lives_of (fireTimeout n e) = lives_of e"
    by (simp_all add: fireTimeout_def runCallback_def lives_of_def split: timeout_callback.splits)
  then show ?thesis
    using assms by (simp add: inv_same step_outcome_same)
qed

lemma preset_lives:
  "map_of DIFFICULTY_PRESETS k = Some pr \<Longrightarrow> 2 \<le> pr_STARTING_LIVES pr \<and> pr_STARTING_LIVES pr \<le> 5"
  by (auto simp: DIFFICULTY_PRESETS_def split: if_splits)

lemma setDifficulty_step:
  assumes "engine_inv e"
  shows "engine_inv (setDifficulty k e) \<and> step_outcome e (setDifficulty k e)"
proof (cases "map_of DIFFICULTY_PRESETS (toUpperCase k)")
  case None
  then show ?thesis using assms by (simp add: setDifficulty_def step_outcome_def)
next
  case (Some pr)
  note pl = preset_lives [OF Some]
  have f: "state (setDifficulty k e) = state e" "stateChanges (setDifficulty k e) = stateChanges e"
    "obstacles (setDifficulty k e) = obstacles e"
    "STARTING_LIVES (game_config (setDifficulty k e)) = pr_STARTING_LIVES pr"
    "lives_of (setDifficulty k e) = map_option (\<lambda>_. pr_STARTING_LIVES pr) (lives_of e)"
    by (simp_all add: setDifficulty_def Some Let_def with_player_def lives_of_def setSpeed_def
          option.map_comp comp_def)
  have "engine_inv (setDifficulty k e)"
    using assms pl f by (auto simp: engine_inv_def cfg_ok_def lives_ok_def unmarked_def)
  moreover have "step_outcome e (setDifficulty k e)"
    using pl f by (auto simp: step_outcome_def game_overs_def)
  ultimately show ?thesis by simp
qed

lemma pause_step:
  assumes "engine_inv e" "state e = PLAYING"
  shows "engine_inv (setState rnd now PAUSED e) \<and> step_outcome e (setState rnd now PAUSED e)"
proof -
  have f: "game_config (setState rnd now PAUSED e) = game_config e"
    "state (setState rnd now PAUSED e) = PAUSED"
    "stateChanges (setState rnd now PAUSED e) = stateChanges e @ [(PAUSED, state e)]"
    "obstacles (setState rnd now PAUSED e) = obstacles e"
    "lives_of (setState rnd now PAUSED e) = lives_of e"
    by (simp_all add: setState_def pauseGame_def emitStateChange_def lives_of_def)
  have "engine_inv (setState rnd now PAUSED e)"
    using assms f by (auto simp: engine_inv_def lives_ok_def unmarked_def)
  moreover have "step_outcome e (setState rnd now PAUSED e)"
    using f by (simp add: step_outcome_def game_overs_def)
  ultimately show ?thesis by simp
qed

lemma menu_step:
  assumes "engine_inv e"
  shows "engine_inv (setState rnd now MENU e) \<and> step_outcome e (setState rnd now MENU e)"
proof -
  have f: "game_config (setState rnd now MENU e) = game_config e"
    "state (setState rnd now MENU e) = MENU"
    "stateChanges (setState rnd now MENU e) = stateChanges e @ [(MENU, state e)]"
    "obstacles (setState rnd now MENU e) = obstacles e"
    "lives_of (setState rnd now MENU e) = lives_of e"
    by (simp_all add: setState_def showMenu_def emitStateChange_def lives_of_def)
  have "engine_inv (setState rnd now MENU e)"
    using assms f by (auto simp: engine_inv_def lives_ok_def unmarked_def)
  moreover have "step_outcome e (setState rnd now MENU e)"
    using f by (simp add: step_outcome_def game_overs_def)
  ultimately show ?thesis by simp
qed

lemma resume_step:
  assumes "engine_inv e" "state e = PAUSED"
  shows "engine_inv (resumeGame rnd now e) \<and> step_outcome e (resumeGame rnd now e)"
proof -
  let ?e1 = "e\<lparr>state := PLAYING\<rparr>"
  have i1: "engine_inv ?e1"
    using assms by (auto simp: engine_inv_def lives_ok_def lives_of_def unmarked_def)
  have eq: "game_overs ?e1 = game_overs e" "lives_of ?e1 = lives_of e" "state ?e1 = PLAYING"
    by (simp_all add: game_overs_def lives_of_def)
  from gameLoop_step [OF i1, of rnd now 0]
  show ?thesis
    using assms(2) eq by (auto simp: resumeGame_def step_outcome_def)
qed

lemma start_step:
  assumes "engine_inv e"
  shows "engine_inv (setState rnd now PLAYING e) \<and> step_outcome e (setState rnd now PLAYING e)"
proof -
  let ?e1 = "createPlayer (resetRun (e\<lparr>state := PLAYING\<rparr>))"
  let ?e2 = "update rnd now (frameDelta ?e1 0 * timeScale ?e1) (?e1\<lparr>gameTime := 0\<rparr>)"
  have s1: "state ?e1 = PLAYING" "obstacles ?e1 = []" "stateChanges ?e1 = stateChanges e"
    "game_config ?e1 = game_config e"
    "lives_of ?e1 = Some (STARTING_LIVES (game_config e))"
    by (simp_all add: createPlayer_def resetRun_def lives_of_def Player_new_def Let_def)
  have i1: "engine_inv ?e1"
    using assms s1 by (auto simp: engine_inv_def lives_ok_def unmarked_def cfg_ok_def)
  have gl: "gameLoop rnd now 0 ?e1 = ?e2"
    using s1(1) by (simp add: gameLoop_def)
  have i2: "engine_inv ?e2" and o2: "step_outcome ?e1 ?e2"
    using playing_frame [of "?e1\<lparr>gameTime := 0\<rparr>" rnd now "frameDelta ?e1 0 * timeScale ?e1"] i1 s1(1)
    by simp_all
  have ns: "state ?e2 = PLAYING" "stateChanges ?e2 = stateChanges e"
    using update_no_obstacles [of "?e1\<lparr>gameTime := 0\<rparr>" rnd now "frameDelta ?e1 0 * timeScale ?e1"] s1
    by simp_all
  have l2: "lives_of ?e2 \<noteq> Some 0"
    using i2 ns(1) by (auto simp: engine_inv_def lives_ok_def)
  have r: "setState rnd now PLAYING e = emitStateChange PLAYING (state e) ?e2"
    by (simp add: setState_def startGame_def gl)
  have f: "game_config (setState rnd now PLAYING e) = game_config ?e2"
    "state (setState rnd now PLAYING e) = PLAYING"
    "stateChanges (setState rnd now PLAYING e) = stateChanges e @ [(PLAYING, state e)]"
    "obstacles (setState rnd now PLAYING e) = obstacles ?e2"
    "lives_of (setState rnd now PLAYING e) = lives_of ?e2"
    unfolding r using ns by (simp_all add: emitStateChange_def lives_of_def)
  have "engine_inv (setState rnd now PLAYING e)"
    using i2 f ns(1) by (simp add: engine_inv_def lives_ok_def unmarked_def)
  moreover have "step_outcome e (setState rnd now PLAYING e)"
    using f l2 by (simp add: step_outcome_def game_overs_def)
  ultimately show ?thesis by simp
qed

lemma step_inv_outcome:
  assumes "engine_inv e"
  shows "engine_inv (step rnd ev e) \<and> step_outcome e (step rnd ev e)"
proof (cases ev)
  case (Frame ts now)
  then show ?thesis using gameLoop_step [OF assms] by simp
next
  case (Input i)
  then show ?thesis using handleInput_step [OF assms] by simp
next
  case PauseCmd
  then show ?thesis
    using pause_step [OF assms] assms by (simp add: step_outcome_def)
next
  case (ResumeCmd now)
  then show ?thesis
    using resume_step [OF assms] assms by (simp add: step_outcome_def)
next
  case (StartCmd now)
  then show ?thesis using start_step [OF assms] by simp
next
  case ExitCmd
  then show ?thesis using menu_step [OF assms] by simp
next
  case (DifficultyCmd d)
  then show ?thesis using setDifficulty_step [OF assms] by simp
next
  case (Resize w h)
  then show ?thesis using resizeCanvas_step [OF assms] by simp
next
  case (TimeoutFired n)
  then show ?thesis using fireTimeout_step [OF assms] by simp
qed

lemma inv_GameEngine_new: "engine_inv (GameEngine_new w h stored)"
  by (simp add: engine_inv_def cfg_ok_def lives_ok_def lives_of_def unmarked_def GameEngine_new_def
        GAME_CONFIG_def)

lemma run_inv: "engine_inv e \<Longrightarrow> engine_inv (run rnd evs e)"
  by (induction evs arbitrary: e) (simp_all add: step_inv_outcome)

lemma reachable_inv: "engine_inv (run rnd evs (GameEngine_new w h stored))"
  by (rule run_inv [OF inv_GameEngine_new])



end
